theory Spec2Isabelle
  imports Main
begin

section \<open>Data model (src/types/types.ts, ponder.schema.ts, src/config/tokens.ts)\<close>

type_synonym address = string

text \<open>
  \<open>TokenData = [string, string]\<close> holds \<open>[amountSupplied, amountBorrowed]\<close> as decimal
  strings. Every string the handlers store is the result of \<open>bigint.toString()\<close> (or the
  literal \<open>"0"\<close>), and every string they read back goes through \<open>BigInt(...)\<close>; a decimal
  string is represented here by the integer it denotes, so \<open>BigInt\<close> and \<open>toString\<close> on a
  cell are the identity. The column type is \<open>jsonb\<close> with default \<open>[]\<close>, so a cell is a list
  of any length and the handlers' \<open>length === 2\<close> test is kept.
\<close>

type_synonym TokenData = "int list"

record TokenConfig =
  address :: address
  decimals :: nat
  symbol :: string

definition TOKENS :: "TokenConfig list" where
  "TOKENS =
    [\<lparr>address = ''0x73b06D8d18De422E269645eaCe15400DE7462417'', decimals = 18, symbol = ''DAI''\<rparr>,
     \<lparr>address = ''0xEdc817A28E8B93B03976FBd4a3dDBc9f7D176c22'', decimals = 6, symbol = ''USDC''\<rparr>,
     \<lparr>address = ''0x703843C3379b52F9FF486c9f5892218d2a065cC8'', decimals = 6, symbol = ''USDbC''\<rparr>,
     \<lparr>address = ''0x628ff693426583D9a7FB391E54366292F509D457'', decimals = 18, symbol = ''WETH''\<rparr>,
     \<lparr>address = ''0x3bf93770f2d4a794c3d9EBEfBAeBAE2a8f09A5E5'', decimals = 18, symbol = ''cbETH''\<rparr>,
     \<lparr>address = ''0x627Fe393Bc6EdDA28e99AE648fD6fF362514304b'', decimals = 18, symbol = ''wstETH''\<rparr>,
     \<lparr>address = ''0xcb1dacd30638ae38f2b94ea64f066045b7d45f44'', decimals = 18, symbol = ''rETH''\<rparr>,
     \<lparr>address = ''0xb8051464C8c92209C92F3a4CD9C73746C4c3CFb3'', decimals = 18, symbol = ''weETH''\<rparr>,
     \<lparr>address = ''0x73902f619CEB9B31FD8EFecf435CbDf89E369Ba6'', decimals = 18, symbol = ''AERO''\<rparr>,
     \<lparr>address = ''0xF877ACaFA28c19b96727966690b2f44d35aD5976'', decimals = 8, symbol = ''cbBTC''\<rparr>,
     \<lparr>address = ''0xb682c840B5F4FC58B20769E691A6fa1305A501a2'', decimals = 6, symbol = ''EURC''\<rparr>,
     \<lparr>address = ''0xfC41B49d064Ac646015b459C522820DB9472F4B5'', decimals = 18, symbol = ''wrsETH''\<rparr>,
     \<lparr>address = ''0xdC7810B47eAAb250De623F0eE07764afa5F71ED1'', decimals = 18, symbol = ''WELL''\<rparr>,
     \<lparr>address = ''0xb6419c6C2e60c4025D6D06eE4F913ce89425a357'', decimals = 6, symbol = ''USDS''\<rparr>,
     \<lparr>address = ''0x9A858ebfF1bEb0D3495BB0e2897c1528eD84A218'', decimals = 8, symbol = ''tBTC''\<rparr>,
     \<lparr>address = ''0x10fF57877b79e9bd949B3815220eC87B9fc5D2ee'', decimals = 8, symbol = ''LBTC''\<rparr>,
     \<lparr>address = ''0xdE8Df9d942D78edE3Ca06e60712582F79CFfFC64'', decimals = 18, symbol = ''VIRTUAL''\<rparr>]"

text \<open>
  \<open>token.symbol === TOKENS[0]?.symbol ? "MToken" : `MToken_${token.symbol}`\<close>; with an
  empty \<open>TOKENS\<close> the optional chain gives \<open>undefined\<close> and the comparison is false.
\<close>

definition contractName :: "TokenConfig \<Rightarrow> string" where
  "contractName token =
     (case TOKENS of
        [] \<Rightarrow> ''MToken_'' @ symbol token
      | t0 # _ \<Rightarrow> if symbol token = symbol t0 then ''MToken'' else ''MToken_'' @ symbol token)"

datatype EventType = Mint | Redeem | Borrow | RepayBorrow | LiquidateBorrow | Transfer
  | NewCollateralFactor

record IndexedEvent =
  type :: EventType
  user :: address
  token :: string
  tokenAddress :: address
  amount :: int
  tokenAmount :: "int option"
  relatedAddress :: "address option"
  blockNumber :: int
  blockTimestamp :: int
  transactionHash :: string
  logIndex :: int

text \<open>
  The chain-location part of the \<open>event\<close> object a handler receives:
  \<open>event.block.number\<close>, \<open>event.block.timestamp\<close>, \<open>event.transaction.hash\<close>,
  \<open>event.log.logIndex\<close>.
\<close>

record EventLocation =
  block_number :: int
  block_timestamp :: int
  transaction_hash :: string
  log_logIndex :: int

text \<open>The decoded \<open>event.args\<close>, one constructor per event type of types.ts.\<close>

datatype EventArgs =
    BorrowEvent address int int int
      \<comment> \<open>borrower, borrowAmount, accountBorrows, totalBorrows\<close>
  | RepayBorrowEvent address address int int int
      \<comment> \<open>payer, borrower, repayAmount, accountBorrows, totalBorrows\<close>
  | MintEvent address int int
      \<comment> \<open>minter, mintAmount, mintTokens\<close>
  | RedeemEvent address int int
      \<comment> \<open>redeemer, redeemAmount, redeemTokens\<close>
  | LiquidateBorrowEvent address address int address int
      \<comment> \<open>liquidator, borrower, repayAmount, mTokenCollateral, seizeTokens\<close>
  | TransferEvent address address int
      \<comment> \<open>from, to, amount\<close>

text \<open>Rows of the three tables of ponder.schema.ts.\<close>

record UserTransactionsRow =
  tx_id :: string
  tx_userAddress :: address
  tx_mTokenAddress :: address
  tx_tokenSymbol :: string
  tx_transactionType :: EventType
  tx_amount :: int
  tx_tokenAmount :: "int option"
  tx_relatedAddress :: "address option"
  tx_blockNumber :: int
  tx_blockTimestamp :: int
  tx_transactionHash :: string

record UserAddressesRow =
  ua_userAddress :: address
  ua_tokenSymbol :: string
  ua_tokenAddress :: address

text \<open>
  A \<open>user_metrics\<close> row, without its key: one \<open>jsonb\<close> cell per token symbol, \<open>[]\<close> where
  nothing was written.
\<close>

type_synonym UserMetricsRow = "string \<Rightarrow> TokenData"

section \<open>Errors, diagnostics and the state the handlers act on\<close>

datatype error =
    UniqueConstraintError string
      \<comment> \<open>a plain insert met an existing primary key\<close>
  | StorageError
      \<comment> \<open>any other failure of a database call\<close>
  | WriteError
      \<comment> \<open>\<open>fs.promises.appendFile\<close> failed\<close>

datatype console_entry =
    EVENT_ERROR string error
  | BALANCE_ERROR string
  | DB_ERROR string error
  | LOG_WRITE_FAILED error

text \<open>
  The state: the three tables, what \<open>console.error\<close> printed, the records appended to
  \<open>./logs/errors.log\<close> (context and error; the timestamp and the stack trace are left
  out), and a script of the environment: one entry per coming database or file call,
  \<open>True\<close> where that call raises. An exhausted script means no further failure.
  \<open>console.log\<close> output is not modelled.
\<close>

record world =
  userTransactions :: "UserTransactionsRow list"
  userAddresses :: "UserAddressesRow list"
  userMetrics :: "address \<rightharpoonup> UserMetricsRow"
  console :: "console_entry list"
  errors_log :: "(string \<times> error) list"
  io_faults :: "bool list"

text \<open>
  An \<open>async\<close> function: it returns a value or throws, and the effects it had before
  throwing stay.
\<close>

type_synonym 'a io = "world \<Rightarrow> (error + 'a) \<times> world"

definition returnE :: "'a \<Rightarrow> 'a io" where
  "returnE x = (\<lambda>w. (Inr x, w))"

definition bindE :: "'a io \<Rightarrow> ('a \<Rightarrow> 'b io) \<Rightarrow> 'b io" where
  "bindE m f = (\<lambda>w. case m w of (Inl e, w') \<Rightarrow> (Inl e, w') | (Inr x, w') \<Rightarrow> f x w')"

definition catchE :: "'a io \<Rightarrow> (error \<Rightarrow> 'a io) \<Rightarrow> 'a io" where
  "catchE m h = (\<lambda>w. case m w of (Inl e, w') \<Rightarrow> h e w' | (Inr x, w') \<Rightarrow> (Inr x, w'))"

definition external_call :: "error \<Rightarrow> unit io" where
  "external_call e = (\<lambda>w.
     case io_faults w of
       [] \<Rightarrow> (Inr (), w)
     | b # bs \<Rightarrow> (if b then Inl e else Inr (), w\<lparr>io_faults := bs\<rparr>))"

definition console_error :: "console_entry \<Rightarrow> unit io" where
  "console_error entry = (\<lambda>w. (Inr (), w\<lparr>console := console w @ [entry]\<rparr>))"

section \<open>The storage collaborator (Ponder's \<open>db\<close>)\<close>

text \<open>\<open>db.find(userMetrics, { userAddress })\<close>: the row, or \<open>null\<close>.\<close>

definition db_find_userMetrics :: "address \<Rightarrow> UserMetricsRow option io" where
  "db_find_userMetrics a =
     bindE (external_call StorageError) (\<lambda>_ w. (Inr (userMetrics w a), w))"

text \<open>
  \<open>db.insert(userTransactions).values(row)\<close> with no conflict clause: the primary key
  \<open>id\<close> rejects a second row of the same id.
\<close>

definition db_insert_userTransactions :: "UserTransactionsRow \<Rightarrow> unit io" where
  "db_insert_userTransactions row =
     bindE (external_call StorageError) (\<lambda>_ w.
       if tx_id row \<in> set (map tx_id (userTransactions w))
       then (Inl (UniqueConstraintError (tx_id row)), w)
       else (Inr (), w\<lparr>userTransactions := userTransactions w @ [row]\<rparr>))"

text \<open>
  \<open>db.insert(userAddresses).values(row).onConflictDoNothing()\<close>, primary key
  \<open>(userAddress, tokenSymbol)\<close>.
\<close>

definition db_insert_userAddresses :: "UserAddressesRow \<Rightarrow> unit io" where
  "db_insert_userAddresses row =
     bindE (external_call StorageError) (\<lambda>_ w.
       if (ua_userAddress row, ua_tokenSymbol row)
            \<in> set (map (\<lambda>r. (ua_userAddress r, ua_tokenSymbol r)) (userAddresses w))
       then (Inr (), w)
       else (Inr (), w\<lparr>userAddresses := userAddresses w @ [row]\<rparr>))"

text \<open>
  \<open>db.insert(userMetrics).values({ userAddress, [sym]: data }).onConflictDoUpdate({ [sym]: data })\<close>:
  a new row has the default \<open>[]\<close> in every other token column, an existing row keeps
  its other columns.
\<close>

definition upsertRow :: "UserMetricsRow option \<Rightarrow> string \<Rightarrow> TokenData \<Rightarrow> UserMetricsRow" where
  "upsertRow existing tokenSymbol tokenData =
     (case existing of
        None \<Rightarrow> (\<lambda>_. [])(tokenSymbol := tokenData)
      | Some row \<Rightarrow> row(tokenSymbol := tokenData))"

definition db_upsert_userMetrics :: "address \<Rightarrow> string \<Rightarrow> TokenData \<Rightarrow> unit io" where
  "db_upsert_userMetrics a tokenSymbol tokenData =
     bindE (external_call StorageError) (\<lambda>_ w.
       (Inr (), w\<lparr>userMetrics := (userMetrics w)(a \<mapsto>
          upsertRow (userMetrics w a) tokenSymbol tokenData)\<rparr>))"

definition appendFile :: "string \<times> error \<Rightarrow> unit io" where
  "appendFile entry =
     bindE (external_call WriteError) (\<lambda>_ w.
       (Inr (), w\<lparr>errors_log := errors_log w @ [entry]\<rparr>))"

section \<open>The indexer (src/unnamed/part\_000)\<close>

definition logError :: "error \<Rightarrow> string \<Rightarrow> unit io" where
  "logError err context =
     catchE (appendFile (context, err))
            (\<lambda>writeError. console_error (LOG_WRITE_FAILED writeError))"

text \<open>Decimal rendering of a \<open>number\<close> or \<open>bigint\<close> in a template string.\<close>

fun digits :: "nat \<Rightarrow> string" where
  "digits n =
     (if n < 10 then [char_of (48 + n)]
      else digits (n div 10) @ [char_of (48 + n mod 10)])"

declare digits.simps [simp del]

definition toString :: "int \<Rightarrow> string" where
  "toString i = (if i < 0 then ''-'' @ digits (nat (- i)) else digits (nat i))"

definition eventId :: "IndexedEvent \<Rightarrow> string" where
  "eventId event = transactionHash event @ ''-'' @ toString (logIndex event)"

definition typeName :: "EventType \<Rightarrow> string" where
  "typeName t =
     (case t of
        Mint \<Rightarrow> ''Mint'' | Redeem \<Rightarrow> ''Redeem'' | Borrow \<Rightarrow> ''Borrow''
      | RepayBorrow \<Rightarrow> ''RepayBorrow'' | LiquidateBorrow \<Rightarrow> ''LiquidateBorrow''
      | Transfer \<Rightarrow> ''Transfer'' | NewCollateralFactor \<Rightarrow> ''NewCollateralFactor'')"

text \<open>The row that \<open>storeEvent\<close> passes to \<open>db.insert(userTransactions).values(...)\<close>.\<close>

definition transactionRow :: "IndexedEvent \<Rightarrow> UserTransactionsRow" where
  "transactionRow event =
     \<lparr>tx_id = eventId event,
      tx_userAddress = user event,
      tx_mTokenAddress = tokenAddress event,
      tx_tokenSymbol = token event,
      tx_transactionType = type event,
      tx_amount = amount event,
      tx_tokenAmount = tokenAmount event,
      tx_relatedAddress = relatedAddress event,
      tx_blockNumber = blockNumber event,
      tx_blockTimestamp = blockTimestamp event,
      tx_transactionHash = transactionHash event\<rparr>"

definition storeEvent :: "IndexedEvent \<Rightarrow> unit io" where
  "storeEvent event =
     catchE
       (bindE (db_insert_userTransactions (transactionRow event)) (\<lambda>_.
        bindE (db_insert_userAddresses
                 \<lparr>ua_userAddress = user event,
                  ua_tokenSymbol = token event,
                  ua_tokenAddress = tokenAddress event\<rparr>) (\<lambda>_.
        (case relatedAddress event of
           None \<Rightarrow> returnE ()
         | Some related \<Rightarrow>
             if related = [] then returnE ()
             else db_insert_userAddresses
                    \<lparr>ua_userAddress = related,
                     ua_tokenSymbol = token event,
                     ua_tokenAddress = tokenAddress event\<rparr>))))
       (\<lambda>err.
          let errorContext = ''Failed to store event - Type: '' @ typeName (type event)
                @ '', User: '' @ user event @ '', Token: '' @ token event in
          bindE (console_error (DB_ERROR errorContext err)) (\<lambda>_.
          logError err errorContext))"

text \<open>
  The handlers that \<open>setupEventHandlers\<close> registers for one token \<open>tkn\<close> of \<open>TOKENS\<close>. Each
  is a \<open>try\<close> block (the \<open>..._try\<close> definition) and a \<open>catch\<close> that prints the error and
  calls \<open>logError\<close>. What five of the handlers do before the \<open>try\<close> (reading the user
  out of the decoded \<open>event.args\<close> and building the context string) cannot throw.
\<close>

definition on_error :: "string \<Rightarrow> error \<Rightarrow> unit io" where
  "on_error errorContext err =
     bindE (console_error (EVENT_ERROR errorContext err)) (\<lambda>_. logError err errorContext)"

definition Borrow_try ::
    "TokenConfig \<Rightarrow> address \<Rightarrow> int \<Rightarrow> int \<Rightarrow> int \<Rightarrow> EventLocation \<Rightarrow> unit io" where
  "Borrow_try tkn borrower borrowAmount accountBorrows totalBorrows event =
     (let indexedEvent =
            \<lparr>type = Borrow, user = borrower, token = symbol tkn,
             tokenAddress = address tkn, amount = borrowAmount, tokenAmount = None,
             relatedAddress = None, blockNumber = block_number event,
             blockTimestamp = block_timestamp event,
             transactionHash = transaction_hash event, logIndex = log_logIndex event\<rparr> in
      bindE (db_find_userMetrics borrower) (\<lambda>result.
      let tokenData =
            (case result of
               None \<Rightarrow> [0, accountBorrows]
             | Some row \<Rightarrow>
                 (let tokenArray = row (symbol tkn) in
                  if length tokenArray = 2
                  then [0, accountBorrows][0 := tokenArray ! 0, 1 := accountBorrows]
                  else [0, accountBorrows])) in
      bindE (storeEvent indexedEvent) (\<lambda>_.
      db_upsert_userMetrics borrower (symbol tkn) tokenData)))"

definition Borrow_errorContext :: "TokenConfig \<Rightarrow> address \<Rightarrow> string" where
  "Borrow_errorContext tkn borrower =
     ''Borrow event error for token '' @ symbol tkn @ '' - User: '' @ borrower"

definition onBorrow ::
    "TokenConfig \<Rightarrow> address \<Rightarrow> int \<Rightarrow> int \<Rightarrow> int \<Rightarrow> EventLocation \<Rightarrow> unit io" where
  "onBorrow tkn borrower borrowAmount accountBorrows totalBorrows event =
     catchE (Borrow_try tkn borrower borrowAmount accountBorrows totalBorrows event)
            (on_error (Borrow_errorContext tkn borrower))"

definition RepayBorrow_try ::
    "TokenConfig \<Rightarrow> address \<Rightarrow> address \<Rightarrow> int \<Rightarrow> int \<Rightarrow> int \<Rightarrow> EventLocation \<Rightarrow> unit io" where
  "RepayBorrow_try tkn payer borrower repayAmount accountBorrows totalBorrows event =
     (let indexedEvent =
            \<lparr>type = RepayBorrow, user = borrower, token = symbol tkn,
             tokenAddress = address tkn, amount = repayAmount, tokenAmount = None,
             relatedAddress = (if payer \<noteq> borrower then Some payer else None),
             blockNumber = block_number event, blockTimestamp = block_timestamp event,
             transactionHash = transaction_hash event, logIndex = log_logIndex event\<rparr> in
      bindE (db_find_userMetrics borrower) (\<lambda>result.
      let tokenData =
            (case result of
               None \<Rightarrow> [0, accountBorrows]
             | Some row \<Rightarrow>
                 (let tokenArray = row (symbol tkn) in
                  if length tokenArray = 2
                  then [0, accountBorrows][0 := tokenArray ! 0, 1 := accountBorrows]
                  else [0, accountBorrows])) in
      bindE (storeEvent indexedEvent) (\<lambda>_.
      db_upsert_userMetrics borrower (symbol tkn) tokenData)))"

definition RepayBorrow_errorContext :: "TokenConfig \<Rightarrow> address \<Rightarrow> address \<Rightarrow> string" where
  "RepayBorrow_errorContext tkn payer borrower =
     ''RepayBorrow event error for token '' @ symbol tkn @ '' - Borrower: '' @ borrower
       @ '', Payer: '' @ payer"

definition onRepayBorrow ::
    "TokenConfig \<Rightarrow> address \<Rightarrow> address \<Rightarrow> int \<Rightarrow> int \<Rightarrow> int \<Rightarrow> EventLocation \<Rightarrow> unit io" where
  "onRepayBorrow tkn payer borrower repayAmount accountBorrows totalBorrows event =
     catchE (RepayBorrow_try tkn payer borrower repayAmount accountBorrows totalBorrows event)
            (on_error (RepayBorrow_errorContext tkn payer borrower))"

text \<open>Mint and Redeem only store the event: balances are left to the Transfer event.\<close>

definition Mint_try :: "TokenConfig \<Rightarrow> address \<Rightarrow> int \<Rightarrow> int \<Rightarrow> EventLocation \<Rightarrow> unit io" where
  "Mint_try tkn minter mintAmount mintTokens event =
     (let indexedEvent =
            \<lparr>type = Mint, user = minter, token = symbol tkn,
             tokenAddress = address tkn, amount = mintAmount, tokenAmount = Some mintTokens,
             relatedAddress = None, blockNumber = block_number event,
             blockTimestamp = block_timestamp event,
             transactionHash = transaction_hash event, logIndex = log_logIndex event\<rparr> in
      storeEvent indexedEvent)"

definition Mint_errorContext :: "TokenConfig \<Rightarrow> address \<Rightarrow> string" where
  "Mint_errorContext tkn minter =
     ''Mint event error for token '' @ symbol tkn @ '' - User: '' @ minter"

definition onMint :: "TokenConfig \<Rightarrow> address \<Rightarrow> int \<Rightarrow> int \<Rightarrow> EventLocation \<Rightarrow> unit io" where
  "onMint tkn minter mintAmount mintTokens event =
     catchE (Mint_try tkn minter mintAmount mintTokens event)
            (on_error (Mint_errorContext tkn minter))"

definition Redeem_try :: "TokenConfig \<Rightarrow> address \<Rightarrow> int \<Rightarrow> int \<Rightarrow> EventLocation \<Rightarrow> unit io" where
  "Redeem_try tkn redeemer redeemAmount redeemTokens event =
     (let indexedEvent =
            \<lparr>type = Redeem, user = redeemer, token = symbol tkn,
             tokenAddress = address tkn, amount = redeemAmount,
             tokenAmount = Some redeemTokens, relatedAddress = None,
             blockNumber = block_number event, blockTimestamp = block_timestamp event,
             transactionHash = transaction_hash event, logIndex = log_logIndex event\<rparr> in
      storeEvent indexedEvent)"

definition Redeem_errorContext :: "TokenConfig \<Rightarrow> address \<Rightarrow> string" where
  "Redeem_errorContext tkn redeemer =
     ''Redeem event error for token '' @ symbol tkn @ '' - User: '' @ redeemer"

definition onRedeem :: "TokenConfig \<Rightarrow> address \<Rightarrow> int \<Rightarrow> int \<Rightarrow> EventLocation \<Rightarrow> unit io" where
  "onRedeem tkn redeemer redeemAmount redeemTokens event =
     catchE (Redeem_try tkn redeemer redeemAmount redeemTokens event)
            (on_error (Redeem_errorContext tkn redeemer))"

text \<open>
  LiquidateBorrow stores the event first, then subtracts \<open>repayAmount\<close> from the
  borrower's borrowed amount when the borrower has a two-element cell, and writes
  \<open>["0", "0"]\<close> otherwise.
\<close>

definition LiquidateBorrow_try ::
    "TokenConfig \<Rightarrow> address \<Rightarrow> address \<Rightarrow> int \<Rightarrow> address \<Rightarrow> int \<Rightarrow> EventLocation \<Rightarrow> unit io" where
  "LiquidateBorrow_try tkn liquidator borrower repayAmount mTokenCollateral seizeTokens event =
     (let indexedEvent =
            \<lparr>type = LiquidateBorrow, user = liquidator, token = symbol tkn,
             tokenAddress = address tkn, amount = repayAmount,
             tokenAmount = Some seizeTokens, relatedAddress = Some borrower,
             blockNumber = block_number event, blockTimestamp = block_timestamp event,
             transactionHash = transaction_hash event, logIndex = log_logIndex event\<rparr> in
      bindE (storeEvent indexedEvent) (\<lambda>_.
      bindE (db_find_userMetrics borrower) (\<lambda>borrowerResult.
      let borrowerTokenData =
            (case borrowerResult of
               None \<Rightarrow> [0, 0]
             | Some row \<Rightarrow>
                 (let tokenArray = row (symbol tkn) in
                  if length tokenArray = 2
                  then (let currentBorrow = tokenArray ! 1;
                            newBorrow = currentBorrow - repayAmount
                        in tokenArray[1 := newBorrow])
                  else [0, 0])) in
      db_upsert_userMetrics borrower (symbol tkn) borrowerTokenData)))"

definition LiquidateBorrow_errorContext :: "TokenConfig \<Rightarrow> address \<Rightarrow> address \<Rightarrow> string" where
  "LiquidateBorrow_errorContext tkn liquidator borrower =
     ''LiquidateBorrow event error for token '' @ symbol tkn @ '' - Liquidator: ''
       @ liquidator @ '', Borrower: '' @ borrower"

definition onLiquidateBorrow ::
    "TokenConfig \<Rightarrow> address \<Rightarrow> address \<Rightarrow> int \<Rightarrow> address \<Rightarrow> int \<Rightarrow> EventLocation \<Rightarrow> unit io" where
  "onLiquidateBorrow tkn liquidator borrower repayAmount mTokenCollateral seizeTokens event =
     catchE (LiquidateBorrow_try tkn liquidator borrower repayAmount mTokenCollateral
               seizeTokens event)
            (on_error (LiquidateBorrow_errorContext tkn liquidator borrower))"


text \<open>
  The Transfer handler reads a balance the same way in all three branches: the cell of
  the found row when it has two elements, \<open>["0", "0"]\<close> otherwise. \<open>db.find\<close> returns a
  fresh value on each call, so in the last branch the two cells read for \<open>from\<close> and \<open>to\<close>
  are separate values even when both addresses are the same.
\<close>

definition tokenDataOf :: "UserMetricsRow option \<Rightarrow> string \<Rightarrow> TokenData" where
  "tokenDataOf result tokenSymbol =
     (case result of
        None \<Rightarrow> [0, 0]
      | Some row \<Rightarrow>
          (let tokenArray = row tokenSymbol in
           if length tokenArray = 2 then tokenArray else [0, 0]))"

definition zeroAddress :: address where
  "zeroAddress = ''0x0000000000000000000000000000000000000000''"

text \<open>
  The debit of the burn and of the ordinary branch: the new sender cell, with the
  \<open>[BALANCE ERROR]\<close> line when the amount exceeds the current supply. The parameter
  \<open>what\<close> is the word that differs between the two messages (\<open>burn\<close>, \<open>transfer\<close>).
\<close>

definition debit :: "string \<Rightarrow> address \<Rightarrow> TokenData \<Rightarrow> int \<Rightarrow> TokenData io" where
  "debit what fromAddress fromTokenData transferAmount =
     (let currentSupplied = fromTokenData ! 0 in
      if currentSupplied \<ge> transferAmount
      then returnE (fromTokenData[0 := currentSupplied - transferAmount])
      else bindE (console_error (BALANCE_ERROR
                    (''Insufficient balance for '' @ what @ '': '' @ fromAddress @ '' has ''
                       @ toString currentSupplied @ '', trying to '' @ what @ '' ''
                       @ toString transferAmount)))
             (\<lambda>_. returnE (fromTokenData[0 := 0])))"

definition Transfer_try ::
    "TokenConfig \<Rightarrow> address \<Rightarrow> address \<Rightarrow> int \<Rightarrow> EventLocation \<Rightarrow> unit io" where
  "Transfer_try tkn fromAddress toAddress transferAmount event =
     (let indexedEvent =
            \<lparr>type = Transfer, user = fromAddress, token = symbol tkn,
             tokenAddress = address tkn, amount = transferAmount, tokenAmount = None,
             relatedAddress = (if toAddress \<noteq> fromAddress then Some toAddress else None),
             blockNumber = block_number event, blockTimestamp = block_timestamp event,
             transactionHash = transaction_hash event, logIndex = log_logIndex event\<rparr> in
      bindE (storeEvent indexedEvent) (\<lambda>_.
      if fromAddress = zeroAddress then
        bindE (db_find_userMetrics toAddress) (\<lambda>toResult.
        let toTokenData = tokenDataOf toResult (symbol tkn);
            toTokenData = toTokenData[0 := toTokenData ! 0 + transferAmount] in
        db_upsert_userMetrics toAddress (symbol tkn) toTokenData)
      else if toAddress = zeroAddress then
        bindE (db_find_userMetrics fromAddress) (\<lambda>fromResult.
        let fromTokenData = tokenDataOf fromResult (symbol tkn) in
        bindE (debit ''burn'' fromAddress fromTokenData transferAmount)
          (\<lambda>fromTokenData.
        db_upsert_userMetrics fromAddress (symbol tkn) fromTokenData))
      else
        bindE (db_find_userMetrics fromAddress) (\<lambda>fromResult.
        bindE (db_find_userMetrics toAddress) (\<lambda>toResult.
        let fromTokenData = tokenDataOf fromResult (symbol tkn);
            toTokenData = tokenDataOf toResult (symbol tkn) in
        bindE (debit ''transfer'' fromAddress fromTokenData transferAmount)
          (\<lambda>fromTokenData.
        let toTokenData = toTokenData[0 := toTokenData ! 0 + transferAmount] in
        bindE (db_upsert_userMetrics fromAddress (symbol tkn) fromTokenData) (\<lambda>_.
        db_upsert_userMetrics toAddress (symbol tkn) toTokenData))))))"

definition Transfer_errorContext :: "TokenConfig \<Rightarrow> string" where
  "Transfer_errorContext tkn = ''Error processing Transfer event from '' @ contractName tkn"

definition onTransfer ::
    "TokenConfig \<Rightarrow> address \<Rightarrow> address \<Rightarrow> int \<Rightarrow> EventLocation \<Rightarrow> unit io" where
  "onTransfer tkn fromAddress toAddress transferAmount event =
     catchE (Transfer_try tkn fromAddress toAddress transferAmount event)
            (on_error (Transfer_errorContext tkn))"

text \<open>The handler that Ponder calls for a decoded event of one market.\<close>

fun handler :: "TokenConfig \<Rightarrow> EventArgs \<Rightarrow> EventLocation \<Rightarrow> unit io" where
  "handler tkn (BorrowEvent borrower borrowAmount accountBorrows totalBorrows) event =
     onBorrow tkn borrower borrowAmount accountBorrows totalBorrows event"
| "handler tkn (RepayBorrowEvent payer borrower repayAmount accountBorrows totalBorrows) event =
     onRepayBorrow tkn payer borrower repayAmount accountBorrows totalBorrows event"
| "handler tkn (MintEvent minter mintAmount mintTokens) event =
     onMint tkn minter mintAmount mintTokens event"
| "handler tkn (RedeemEvent redeemer redeemAmount redeemTokens) event =
     onRedeem tkn redeemer redeemAmount redeemTokens event"
| "handler tkn (LiquidateBorrowEvent liquidator borrower repayAmount mTokenCollateral
       seizeTokens) event =
     onLiquidateBorrow tkn liquidator borrower repayAmount mTokenCollateral seizeTokens event"
| "handler tkn (TransferEvent fromAddress toAddress transferAmount) event =
     onTransfer tkn fromAddress toAddress transferAmount event"

text \<open>
  The stream: events are handled one after the other; an exception that left a handler
  would end the run.
\<close>

fun process :: "(TokenConfig \<times> EventArgs \<times> EventLocation) list \<Rightarrow> unit io" where
  "process [] = returnE ()"
| "process ((tkn, args, event) # rest) =
     bindE (handler tkn args event) (\<lambda>_. process rest)"

section \<open>Reading a position\<close>

definition amountSupplied :: "world \<Rightarrow> address \<Rightarrow> string \<Rightarrow> int" where
  "amountSupplied w a tokenSymbol = tokenDataOf (userMetrics w a) tokenSymbol ! 0"

definition amountBorrowed :: "world \<Rightarrow> address \<Rightarrow> string \<Rightarrow> int" where
  "amountBorrowed w a tokenSymbol = tokenDataOf (userMetrics w a) tokenSymbol ! 1"


definition totalSupplied :: "world \<Rightarrow> address set \<Rightarrow> string \<Rightarrow> int" where
  "totalSupplied w S tokenSymbol = sum (\<lambda>a. amountSupplied w a tokenSymbol) S"

text \<open>
  The anomaly records: the \<open>[BALANCE ERROR]\<close> lines among what \<open>console.error\<close> printed.
\<close>

fun isBalanceError :: "console_entry \<Rightarrow> bool" where
  "isBalanceError (BALANCE_ERROR message) = True"
| "isBalanceError (EVENT_ERROR errorContext err) = False"
| "isBalanceError (DB_ERROR errorContext err) = False"
| "isBalanceError (LOG_WRITE_FAILED err) = False"

definition balanceErrors :: "world \<Rightarrow> nat" where
  "balanceErrors w = length (filter isBalanceError (console w))"

text \<open>Whether the environment makes the next database or file call raise.\<close>

definition next_call_fails :: "world \<Rightarrow> bool" where
  "next_call_fails w = (case io_faults w of [] \<Rightarrow> False | b # bs \<Rightarrow> b)"

section \<open>The try block and the error context of each handler\<close>

fun try_block :: "TokenConfig \<Rightarrow> EventArgs \<Rightarrow> EventLocation \<Rightarrow> unit io" where
  "try_block tkn (BorrowEvent borrower borrowAmount accountBorrows totalBorrows) event =
     Borrow_try tkn borrower borrowAmount accountBorrows totalBorrows event"
| "try_block tkn (RepayBorrowEvent payer borrower repayAmount accountBorrows totalBorrows) event =
     RepayBorrow_try tkn payer borrower repayAmount accountBorrows totalBorrows event"
| "try_block tkn (MintEvent minter mintAmount mintTokens) event =
     Mint_try tkn minter mintAmount mintTokens event"
| "try_block tkn (RedeemEvent redeemer redeemAmount redeemTokens) event =
     Redeem_try tkn redeemer redeemAmount redeemTokens event"
| "try_block tkn (LiquidateBorrowEvent liquidator borrower repayAmount mTokenCollateral
       seizeTokens) event =
     LiquidateBorrow_try tkn liquidator borrower repayAmount mTokenCollateral seizeTokens event"
| "try_block tkn (TransferEvent fromAddress toAddress transferAmount) event =
     Transfer_try tkn fromAddress toAddress transferAmount event"

fun errorContext :: "TokenConfig \<Rightarrow> EventArgs \<Rightarrow> string" where
  "errorContext tkn (BorrowEvent borrower borrowAmount accountBorrows totalBorrows) =
     Borrow_errorContext tkn borrower"
| "errorContext tkn (RepayBorrowEvent payer borrower repayAmount accountBorrows totalBorrows) =
     RepayBorrow_errorContext tkn payer borrower"
| "errorContext tkn (MintEvent minter mintAmount mintTokens) = Mint_errorContext tkn minter"
| "errorContext tkn (RedeemEvent redeemer redeemAmount redeemTokens) =
     Redeem_errorContext tkn redeemer"
| "errorContext tkn (LiquidateBorrowEvent liquidator borrower repayAmount mTokenCollateral
       seizeTokens) =
     LiquidateBorrow_errorContext tkn liquidator borrower"
| "errorContext tkn (TransferEvent fromAddress toAddress transferAmount) =
     Transfer_errorContext tkn"

text \<open>\<open>mentions s t\<close>: the string \<open>t\<close> occurs in \<open>s\<close>.\<close>

fun startsWith :: "string \<Rightarrow> string \<Rightarrow> bool" where
  "startsWith s [] = True"
| "startsWith [] (c # cs) = False"
| "startsWith (x # xs) (c # cs) = (x = c \<and> startsWith xs cs)"

fun mentions :: "string \<Rightarrow> string \<Rightarrow> bool" where
  "mentions [] t = (t = [])"
| "mentions (x # xs) t = (startsWith (x # xs) t \<or> mentions xs t)"

section \<open>Sequences of ordinary transfers that the senders can cover\<close>

text \<open>
  A sequence of Transfer events between distinct addresses of \<open>S\<close>, each of an amount
  the sender holds when the event is handled, and each handled without an exception
  reaching the handler's \<open>catch\<close>.
\<close>

fun ordinary_covered ::
    "address set \<Rightarrow> world \<Rightarrow> (TokenConfig \<times> EventArgs \<times> EventLocation) list \<Rightarrow> bool" where
  "ordinary_covered S w [] = True"
| "ordinary_covered S w ((tkn, TransferEvent fromAddress toAddress transferAmount, event) # rest) =
     (fromAddress \<in> S \<and> toAddress \<in> S \<and> fromAddress \<noteq> toAddress
      \<and> transferAmount \<le> amountSupplied w fromAddress (symbol tkn)
      \<and> fst (Transfer_try tkn fromAddress toAddress transferAmount event w) = Inr ()
      \<and> ordinary_covered S
            (snd (onTransfer tkn fromAddress toAddress transferAmount event w)) rest)"
| "ordinary_covered S w (other # rest) = False"

section \<open>Example inputs\<close>

definition DAI :: TokenConfig where
  "DAI = \<lparr>address = ''0x73b06D8d18De422E269645eaCe15400DE7462417'', decimals = 18,
           symbol = ''DAI''\<rparr>"

definition userU :: address where
  "userU = ''0x1111111111111111111111111111111111111111''"

definition userV :: address where
  "userV = ''0x2222222222222222222222222222222222222222''"

definition liquidatorL :: address where
  "liquidatorL = ''0x3333333333333333333333333333333333333333''"

definition sampleLocation :: EventLocation where
  "sampleLocation =
     \<lparr>block_number = 2300001, block_timestamp = 1700000000,
      transaction_hash = ''0xabc'', log_logIndex = 3\<rparr>"

text \<open>Empty tables, a position \<open>[supplied, borrowed]\<close> in DAI for one user, and no failing call.\<close>

definition emptyWorld :: world where
  "emptyWorld =
     \<lparr>userTransactions = [], userAddresses = [], userMetrics = Map.empty, console = [],
      errors_log = [], io_faults = []\<rparr>"

definition worldWith :: "address \<Rightarrow> TokenData \<Rightarrow> world" where
  "worldWith a tokenData =
     emptyWorld\<lparr>userMetrics := [a \<mapsto> (\<lambda>_. [])(''DAI'' := tokenData)]\<rparr>"

definition sampleEvent :: IndexedEvent where
  "sampleEvent =
     \<lparr>type = Mint, user = userU, token = ''DAI'', tokenAddress = address DAI, amount = 50,
      tokenAmount = Some 50, relatedAddress = None, blockNumber = 2300001,
      blockTimestamp = 1700000000, transactionHash = ''0xabc'', logIndex = 3\<rparr>"

section \<open>Evaluation and the effect of the storage calls\<close>

lemmas eval_defs =
  returnE_def bindE_def catchE_def external_call_def console_error_def
  db_find_userMetrics_def db_insert_userTransactions_def db_insert_userAddresses_def
  upsertRow_def db_upsert_userMetrics_def appendFile_def logError_def eventId_def
  transactionRow_def storeEvent_def on_error_def
  Borrow_try_def onBorrow_def RepayBorrow_try_def onRepayBorrow_def
  Mint_try_def onMint_def Redeem_try_def onRedeem_def
  LiquidateBorrow_try_def onLiquidateBorrow_def
  tokenDataOf_def zeroAddress_def debit_def Transfer_try_def onTransfer_def
  amountSupplied_def amountBorrowed_def totalSupplied_def balanceErrors_def
  next_call_fails_def
  DAI_def userU_def userV_def liquidatorL_def sampleLocation_def emptyWorld_def worldWith_def
  sampleEvent_def Let_def

lemma bindE_Inr_iff:
  "bindE m f w = (Inr y, w'') \<longleftrightarrow> (\<exists>x w'. m w = (Inr x, w') \<and> f x w' = (Inr y, w''))"
  by (auto simp: bindE_def split: prod.splits sum.splits)

lemma returnE_iff [simp]: "returnE x w = (r, w') \<longleftrightarrow> r = Inr x \<and> w' = w"
  by (auto simp: returnE_def)

lemma external_call_frame:
  assumes "external_call e w = (r, w')"
  shows "userMetrics w' = userMetrics w \<and> userTransactions w' = userTransactions w \<and>
    userAddresses w' = userAddresses w \<and> console w' = console w \<and>
    errors_log w' = errors_log w \<and> (r = Inr () \<or> r = Inl e)"
  using assms by (auto simp: external_call_def split: list.splits if_splits)

lemma db_find_userMetrics_frame:
  assumes "db_find_userMetrics a w = (r, w')"
  shows "userMetrics w' = userMetrics w \<and> userTransactions w' = userTransactions w \<and>
    userAddresses w' = userAddresses w \<and> console w' = console w \<and>
    errors_log w' = errors_log w \<and> (r = Inr (userMetrics w a) \<or> r = Inl StorageError)"
  using assms
  by (auto simp: db_find_userMetrics_def bindE_def split: prod.splits sum.splits
           dest!: external_call_frame)

lemma db_upsert_userMetrics_frame:
  assumes "db_upsert_userMetrics a s td w = (r, w')"
  shows "userTransactions w' = userTransactions w \<and>
    userAddresses w' = userAddresses w \<and> console w' = console w \<and>
    errors_log w' = errors_log w \<and>
    (r = Inr () \<and> userMetrics w' = (userMetrics w)(a \<mapsto>
          upsertRow (userMetrics w a) s td)
     \<or> r = Inl StorageError \<and> userMetrics w' = userMetrics w)"
  using assms
  by (auto simp: db_upsert_userMetrics_def bindE_def split: prod.splits sum.splits
           dest!: external_call_frame)

lemma db_insert_userTransactions_frame:
  assumes "db_insert_userTransactions row w = (r, w')"
  shows "userMetrics w' = userMetrics w \<and>
    userAddresses w' = userAddresses w \<and> console w' = console w \<and>
    errors_log w' = errors_log w \<and>
    (r = Inr () \<and> tx_id row \<notin> set (map tx_id (userTransactions w))
        \<and> userTransactions w' = userTransactions w @ [row]
     \<or> (r = Inl StorageError \<or> r = Inl (UniqueConstraintError (tx_id row)))
        \<and> userTransactions w' = userTransactions w)"
  using assms
  by (auto simp: db_insert_userTransactions_def bindE_def split: prod.splits sum.splits if_splits
           dest!: external_call_frame)

lemma db_insert_userTransactions_duplicate:
  assumes "db_insert_userTransactions row w = (r, w')"
    and "tx_id row \<in> set (map tx_id (userTransactions w))"
  shows "r \<noteq> Inr ()"
  using assms
  by (auto simp: db_insert_userTransactions_def bindE_def split: prod.splits sum.splits if_splits
           dest!: external_call_frame)

lemma db_insert_userAddresses_frame:
  assumes "db_insert_userAddresses row w = (r, w')"
  shows "userMetrics w' = userMetrics w \<and>
    userTransactions w' = userTransactions w \<and> console w' = console w \<and>
    errors_log w' = errors_log w \<and> (r = Inr () \<or> r = Inl StorageError)"
  using assms
  by (auto simp: db_insert_userAddresses_def bindE_def split: prod.splits sum.splits if_splits
           dest!: external_call_frame)

lemma console_error_iff [simp]:
  "console_error entry w = (r, w') \<longleftrightarrow> r = Inr () \<and> w' = w\<lparr>console := console w @ [entry]\<rparr>"
  by (auto simp: console_error_def)

lemma appendFile_frame:
  assumes "appendFile entry w = (r, w')"
  shows "userMetrics w' = userMetrics w \<and>
    userTransactions w' = userTransactions w \<and> userAddresses w' = userAddresses w \<and>
    console w' = console w \<and>
    (r = Inr () \<and> errors_log w' = errors_log w @ [entry]
     \<or> r = Inl WriteError \<and> errors_log w' = errors_log w)"
  using assms
  by (auto simp: appendFile_def bindE_def split: prod.splits sum.splits if_splits
           dest!: external_call_frame)

lemma logError_frame:
  assumes "logError err context w = (r, w')"
  shows "r = Inr () \<and> userMetrics w' = userMetrics w \<and>
    userTransactions w' = userTransactions w \<and> userAddresses w' = userAddresses w \<and>
    (console w' = console w \<and> errors_log w' = errors_log w @ [(context, err)]
     \<or> console w' = console w @ [LOG_WRITE_FAILED WriteError] \<and> errors_log w' = errors_log w)"
  using assms
  by (auto simp: logError_def catchE_def split: prod.splits sum.splits
           dest!: appendFile_frame)

lemma on_error_frame:
  assumes "on_error context err w = (r, w')"
  shows "r = Inr () \<and> userMetrics w' = userMetrics w \<and>
    userTransactions w' = userTransactions w \<and> userAddresses w' = userAddresses w \<and>
    (console w' = console w @ [EVENT_ERROR context err]
       \<and> errors_log w' = errors_log w @ [(context, err)]
     \<or> console w' = console w @ [EVENT_ERROR context err, LOG_WRITE_FAILED WriteError]
       \<and> errors_log w' = errors_log w)"
  using assms
  by (auto simp: on_error_def bindE_def split: prod.splits sum.splits
           dest!: logError_frame)

lemma storeEvent_frame:
  assumes "storeEvent ev w = (r, w')"
  shows "r = Inr () \<and> userMetrics w' = userMetrics w \<and>
    (userTransactions w' = userTransactions w
     \<or> eventId ev \<notin> set (map tx_id (userTransactions w))
       \<and> userTransactions w' = userTransactions w @ [transactionRow ev])"
proof -
  let ?ins = "db_insert_userTransactions (transactionRow ev)"
  obtain r1 w1 where ins: "?ins w = (r1, w1)" by (cases "?ins w")
  note f1 = db_insert_userTransactions_frame [OF ins]
  have id: "tx_id (transactionRow ev) = eventId ev" by (simp add: transactionRow_def)
  show ?thesis
    using assms ins f1 id
    by (auto simp: storeEvent_def catchE_def bindE_def Let_def
             split: prod.splits sum.splits option.splits if_splits
             dest!: db_insert_userAddresses_frame logError_frame)
qed

lemma storeEvent_replay:
  assumes "storeEvent ev w = (r, w')"
    and "eventId ev \<in> set (map tx_id (userTransactions w))"
  shows "userTransactions w' = userTransactions w \<and> userAddresses w' = userAddresses w"
proof -
  let ?ins = "db_insert_userTransactions (transactionRow ev)"
  obtain r1 w1 where ins: "?ins w = (r1, w1)" by (cases "?ins w")
  have id: "tx_id (transactionRow ev) = eventId ev" by (simp add: transactionRow_def)
  note f1 = db_insert_userTransactions_frame [OF ins]
  have "r1 \<noteq> Inr ()"
    using db_insert_userTransactions_duplicate [OF ins] assms(2) id by simp
  then obtain e where r1: "r1 = Inl e" by (cases r1) auto
  show ?thesis
    using assms(1) ins f1 r1
    by (auto simp: storeEvent_def catchE_def bindE_def Let_def
             split: prod.splits sum.splits dest!: logError_frame)
qed

lemma tokenDataOf_length [simp]: "length (tokenDataOf result s) = 2"
  by (simp add: tokenDataOf_def Let_def split: option.splits)

lemma borrow_tokenData:
  "(case result of
      None \<Rightarrow> [0, accountBorrows]
    | Some row \<Rightarrow>
        (let tokenArray = row s in
         if length tokenArray = 2
         then [0, accountBorrows][0 := tokenArray ! 0, 1 := accountBorrows]
         else [0, accountBorrows])) = [tokenDataOf result s ! 0, accountBorrows]"
  by (simp add: tokenDataOf_def Let_def split: option.splits)

lemma find_store_upsert:
  assumes "bindE (db_find_userMetrics a) (\<lambda>result.
             bindE (storeEvent ev) (\<lambda>_. db_upsert_userMetrics a s (f result))) w = (r, w')"
  shows "r = Inr () \<and> userMetrics w' = (userMetrics w)(a \<mapsto>
            upsertRow (userMetrics w a) s (f (userMetrics w a)))
         \<or> r = Inl StorageError \<and> userMetrics w' = userMetrics w"
  using assms
  by (auto simp: bindE_def split: prod.splits sum.splits
           dest!: db_find_userMetrics_frame storeEvent_frame db_upsert_userMetrics_frame)

lemma Borrow_try_effect:
  assumes "Borrow_try tkn borrower borrowAmount accountBorrows totalBorrows event w = (r, w')"
  shows "r = Inr () \<and> userMetrics w' = (userMetrics w)(borrower \<mapsto>
            upsertRow (userMetrics w borrower) (symbol tkn)
              [amountSupplied w borrower (symbol tkn), accountBorrows])
         \<or> r = Inl StorageError \<and> userMetrics w' = userMetrics w"
  using find_store_upsert [OF assms [unfolded Borrow_try_def Let_def]]
  by (simp only: borrow_tokenData [unfolded Let_def] amountSupplied_def)

lemma RepayBorrow_try_effect:
  assumes "RepayBorrow_try tkn payer borrower repayAmount accountBorrows totalBorrows event w
             = (r, w')"
  shows "r = Inr () \<and> userMetrics w' = (userMetrics w)(borrower \<mapsto>
            upsertRow (userMetrics w borrower) (symbol tkn)
              [amountSupplied w borrower (symbol tkn), accountBorrows])
         \<or> r = Inl StorageError \<and> userMetrics w' = userMetrics w"
  using find_store_upsert [OF assms [unfolded RepayBorrow_try_def Let_def]]
  by (simp only: borrow_tokenData [unfolded Let_def] amountSupplied_def)

lemma handler_catch:
  "handler tkn args event = catchE (try_block tkn args event) (on_error (errorContext tkn args))"
  by (cases args)
     (simp_all add: onBorrow_def onRepayBorrow_def onMint_def onRedeem_def
        onLiquidateBorrow_def onTransfer_def)

lemma on_error_snd:
  "fst (on_error c e w) = Inr ()"
  "userMetrics (snd (on_error c e w)) = userMetrics w"
  "userTransactions (snd (on_error c e w)) = userTransactions w"
  "userAddresses (snd (on_error c e w)) = userAddresses w"
  using on_error_frame [of c e w "fst (on_error c e w)" "snd (on_error c e w)"] by simp_all

lemma handler_completed:
  assumes "fst (try_block tkn args event w) = Inr ()"
  shows "handler tkn args event w = try_block tkn args event w"
  using assms by (auto simp: handler_catch catchE_def split: prod.splits sum.splits)

lemma handler_userMetrics:
  "userMetrics (snd (handler tkn args event w)) = userMetrics (snd (try_block tkn args event w))"
  by (auto simp: handler_catch catchE_def on_error_snd split: prod.splits sum.splits)

lemma handler_total: "fst (handler tkn args event w) = Inr ()"
  by (auto simp: handler_catch catchE_def on_error_snd split: prod.splits sum.splits)

lemma borrow_repay_effect:
  assumes "args = BorrowEvent borrower borrowAmount accountBorrows totalBorrows
           \<or> args = RepayBorrowEvent payer borrower repayAmount accountBorrows totalBorrows"
    and "try_block tkn args event w = (r, w')"
  shows "r = Inr () \<and> userMetrics w' = (userMetrics w)(borrower \<mapsto>
            upsertRow (userMetrics w borrower) (symbol tkn)
              [amountSupplied w borrower (symbol tkn), accountBorrows])
         \<or> r = Inl StorageError \<and> userMetrics w' = userMetrics w"
  using assms by (auto dest: Borrow_try_effect RepayBorrow_try_effect)

lemma tokenDataOf_upsertRow:
  "length td = 2 \<Longrightarrow>
     tokenDataOf (Some (upsertRow r s td)) s' = (if s' = s then td else tokenDataOf r s')"
  by (auto simp: tokenDataOf_def upsertRow_def Let_def split: option.splits)

lemma amountBorrowed_upsert:
  assumes "userMetrics w' = (userMetrics w)(a \<mapsto> upsertRow (userMetrics w a) s td)"
    and "length td = 2"
  shows "amountBorrowed w' x s' = (if x = a \<and> s' = s then td ! 1 else amountBorrowed w x s')"
  using assms by (simp add: amountBorrowed_def tokenDataOf_upsertRow)

lemma amountSupplied_upsert:
  assumes "userMetrics w' = (userMetrics w)(a \<mapsto> upsertRow (userMetrics w a) s td)"
    and "length td = 2"
  shows "amountSupplied w' x s' = (if x = a \<and> s' = s then td ! 0 else amountSupplied w x s')"
  using assms by (simp add: amountSupplied_def tokenDataOf_upsertRow)

section \<open>The effect of the Transfer and LiquidateBorrow handlers\<close>

lemma debit_frame:
  assumes "debit what f fd a w = (r, w')"
  shows "r = Inr (fd[0 := (if fd ! 0 \<ge> a then fd ! 0 - a else 0)])
         \<and> userMetrics w' = userMetrics w \<and> userTransactions w' = userTransactions w
         \<and> userAddresses w' = userAddresses w \<and> errors_log w' = errors_log w"
  using assms
  by (auto simp: debit_def Let_def bindE_def console_error_def returnE_def split: if_splits)

lemma Transfer_mint_effect:
  assumes "f = zeroAddress"
    and "Transfer_try tkn f t a ev w = (Inr (), w')"
  shows "userMetrics w' = (userMetrics w)(t \<mapsto> upsertRow (userMetrics w t) (symbol tkn)
            ((tokenDataOf (userMetrics w t) (symbol tkn))
               [0 := tokenDataOf (userMetrics w t) (symbol tkn) ! 0 + a]))"
  using assms unfolding Transfer_try_def Let_def
  by (auto simp: bindE_Inr_iff
           dest!: db_find_userMetrics_frame storeEvent_frame db_upsert_userMetrics_frame)

lemma Transfer_burn_effect:
  assumes "f \<noteq> zeroAddress" and "t = zeroAddress"
    and "Transfer_try tkn f t a ev w = (Inr (), w')"
  shows "userMetrics w' = (userMetrics w)(f \<mapsto> upsertRow (userMetrics w f) (symbol tkn)
            ((tokenDataOf (userMetrics w f) (symbol tkn))
               [0 := (if tokenDataOf (userMetrics w f) (symbol tkn) ! 0 \<ge> a
                      then tokenDataOf (userMetrics w f) (symbol tkn) ! 0 - a else 0)]))"
  using assms unfolding Transfer_try_def Let_def
  by (auto simp: bindE_Inr_iff
           dest!: db_find_userMetrics_frame storeEvent_frame db_upsert_userMetrics_frame
                  debit_frame)

lemma Transfer_ordinary_effect:
  assumes "f \<noteq> zeroAddress" and "t \<noteq> zeroAddress"
    and "Transfer_try tkn f t a ev w = (Inr (), w')"
  shows "\<exists>m1. m1 = (userMetrics w)(f \<mapsto> upsertRow (userMetrics w f) (symbol tkn)
            ((tokenDataOf (userMetrics w f) (symbol tkn))
               [0 := (if tokenDataOf (userMetrics w f) (symbol tkn) ! 0 \<ge> a
                      then tokenDataOf (userMetrics w f) (symbol tkn) ! 0 - a else 0)]))
         \<and> userMetrics w' = m1(t \<mapsto> upsertRow (m1 t) (symbol tkn)
            ((tokenDataOf (userMetrics w t) (symbol tkn))
               [0 := tokenDataOf (userMetrics w t) (symbol tkn) ! 0 + a]))"
  using assms unfolding Transfer_try_def Let_def
  by (auto simp: bindE_Inr_iff
           dest!: db_find_userMetrics_frame storeEvent_frame db_upsert_userMetrics_frame
                  debit_frame)
lemma Transfer_mint_supplied:
  assumes "f = zeroAddress"
    and "Transfer_try tkn f t a ev w = (Inr (), w')"
  shows "amountSupplied w' x s' =
           (if x = t \<and> s' = symbol tkn then amountSupplied w t (symbol tkn) + a
            else amountSupplied w x s')"
  using Transfer_mint_effect [OF assms]
  by (simp add: amountSupplied_def tokenDataOf_upsertRow)

lemma Transfer_burn_supplied:
  assumes "f \<noteq> zeroAddress" and "t = zeroAddress"
    and "Transfer_try tkn f t a ev w = (Inr (), w')"
  shows "amountSupplied w' x s' =
           (if x = f \<and> s' = symbol tkn
            then (if amountSupplied w f (symbol tkn) \<ge> a
                  then amountSupplied w f (symbol tkn) - a else 0)
            else amountSupplied w x s')"
  using Transfer_burn_effect [OF assms]
  by (simp add: amountSupplied_def tokenDataOf_upsertRow)

lemma Transfer_ordinary_supplied:
  assumes "f \<noteq> zeroAddress" and "t \<noteq> zeroAddress" and "f \<noteq> t"
    and "Transfer_try tkn f t a ev w = (Inr (), w')"
  shows "amountSupplied w' x s' =
           (if x = f \<and> s' = symbol tkn
            then (if amountSupplied w f (symbol tkn) \<ge> a
                  then amountSupplied w f (symbol tkn) - a else 0)
            else if x = t \<and> s' = symbol tkn then amountSupplied w t (symbol tkn) + a
            else amountSupplied w x s')"
  using Transfer_ordinary_effect [OF assms(1,2,4)] assms(3)
  by (auto simp add: amountSupplied_def tokenDataOf_upsertRow)

lemma Transfer_self_supplied:
  assumes "f \<noteq> zeroAddress"
    and "Transfer_try tkn f f a ev w = (Inr (), w')"
  shows "amountSupplied w' x s' =
           (if x = f \<and> s' = symbol tkn then amountSupplied w f (symbol tkn) + a
            else amountSupplied w x s')"
  using Transfer_ordinary_effect [OF assms(1,1,2)]
  by (auto simp add: amountSupplied_def tokenDataOf_upsertRow)

lemma storeEvent_log_grows:
  assumes "storeEvent ev w = (r, w')"
  shows "take (length (userTransactions w)) (userTransactions w') = userTransactions w
         \<and> length (userTransactions w') \<le> length (userTransactions w) + 1"
  using storeEvent_frame [OF assms] by auto

lemma store_only:
  assumes "catchE (storeEvent ev) (on_error c) w = (r, w')"
  shows "r = Inr () \<and> userMetrics w' = userMetrics w
         \<and> take (length (userTransactions w)) (userTransactions w') = userTransactions w
         \<and> length (userTransactions w') \<le> length (userTransactions w) + 1"
  using assms
  by (auto simp: catchE_def split: prod.splits sum.splits
           dest!: storeEvent_frame)

lemma LiquidateBorrow_try_effect:
  assumes "LiquidateBorrow_try tkn liquidator borrower repayAmount mTokenCollateral seizeTokens
             event w = (Inr (), w')"
  shows "userMetrics w' = (userMetrics w)(borrower \<mapsto>
           upsertRow (userMetrics w borrower) (symbol tkn)
             (case userMetrics w borrower of
                None \<Rightarrow> [0, 0]
              | Some row \<Rightarrow>
                  if length (row (symbol tkn)) = 2
                  then (row (symbol tkn))[1 := row (symbol tkn) ! 1 - repayAmount]
                  else [0, 0]))"
  using assms unfolding LiquidateBorrow_try_def Let_def
  by (auto simp: bindE_Inr_iff
           dest!: db_find_userMetrics_frame storeEvent_frame db_upsert_userMetrics_frame)

lemma LiquidateBorrow_borrowed:
  assumes "LiquidateBorrow_try tkn liquidator borrower repayAmount mTokenCollateral seizeTokens
             event w = (Inr (), w')"
    and "userMetrics w borrower = Some row" and "length (row (symbol tkn)) = 2"
  shows "amountBorrowed w' borrower (symbol tkn)
           = amountBorrowed w borrower (symbol tkn) - repayAmount"
  using LiquidateBorrow_try_effect [OF assms(1)] assms(2,3)
  by (simp add: amountBorrowed_def tokenDataOf_upsertRow) (simp add: tokenDataOf_def)

lemma LiquidateBorrow_try_replay:
  assumes "LiquidateBorrow_try tkn liquidator borrower repayAmount mTokenCollateral seizeTokens
             event w = (Inr (), w')"
    and "transaction_hash event @ ''-'' @ toString (log_logIndex event)
           \<in> set (map tx_id (userTransactions w))"
  shows "userTransactions w' = userTransactions w"
  using assms unfolding LiquidateBorrow_try_def Let_def
  by (auto simp: bindE_Inr_iff eventId_def
           dest!: db_find_userMetrics_frame storeEvent_replay db_upsert_userMetrics_frame)

lemma Transfer_try_replay:
  assumes "Transfer_try tkn f t a event w = (Inr (), w')"
    and "transaction_hash event @ ''-'' @ toString (log_logIndex event)
           \<in> set (map tx_id (userTransactions w))"
  shows "userTransactions w' = userTransactions w"
  using assms unfolding Transfer_try_def Let_def
  by (auto simp: bindE_Inr_iff eventId_def split: if_splits
           dest!: db_find_userMetrics_frame storeEvent_replay db_upsert_userMetrics_frame
                  debit_frame)

section \<open>The stream and the error records\<close>

lemma process_Cons:
  "process ((tkn, args, event) # rest) w = process rest (snd (handler tkn args event w))"
  using handler_total [of tkn args event w]
  by (cases "handler tkn args event w") (simp add: bindE_def)

lemma process_total: "fst (process events w) = Inr ()"
proof (induction events arbitrary: w)
  case Nil
  show ?case by (simp add: returnE_def)
next
  case (Cons e rest)
  obtain tkn args event where e: "e = (tkn, args, event)" by (cases e)
  show ?case unfolding e process_Cons by (rule Cons.IH)
qed

lemma ordinary_step_total:
  assumes fin: "finite S" and f: "f \<in> S" and t: "t \<in> S" and ne: "f \<noteq> t"
    and fz: "f \<noteq> zeroAddress" and tz: "t \<noteq> zeroAddress"
    and cover: "a \<le> amountSupplied w f (symbol tkn)"
    and run: "Transfer_try tkn f t a ev w = (Inr (), w')"
  shows "totalSupplied w' S s = totalSupplied w S s"
proof (cases "s = symbol tkn")
  case False
  then have "amountSupplied w' x s = amountSupplied w x s" for x
    by (simp add: Transfer_ordinary_supplied [OF fz tz ne run])
  then show ?thesis by (simp add: totalSupplied_def)
next
  case True
  let ?g = "\<lambda>x. amountSupplied w x s" and ?g' = "\<lambda>x. amountSupplied w' x s"
  have gf: "?g' f = ?g f - a"
    using cover True by (simp add: Transfer_ordinary_supplied [OF fz tz ne run])
  have gt: "?g' t = ?g t + a"
    using ne True by (simp add: Transfer_ordinary_supplied [OF fz tz ne run])
  have rest: "?g' x = ?g x" if "x \<in> S - {f} - {t}" for x
    using that by (simp add: Transfer_ordinary_supplied [OF fz tz ne run])
  have t': "t \<in> S - {f}" using t ne by simp
  have fin': "finite (S - {f})" using fin by simp
  have "sum ?g' S = ?g' f + (?g' t + sum ?g' (S - {f} - {t}))"
    by (simp only: sum.remove [OF fin f] sum.remove [OF fin' t'])
  also have "sum ?g' (S - {f} - {t}) = sum ?g (S - {f} - {t})"
    by (rule sum.cong) (simp_all only: rest)
  also have "?g' f + (?g' t + sum ?g (S - {f} - {t})) = ?g f + (?g t + sum ?g (S - {f} - {t}))"
    by (simp add: gf gt)
  also have "\<dots> = sum ?g S"
    by (simp only: sum.remove [OF fin f] sum.remove [OF fin' t'])
  finally show ?thesis by (simp add: totalSupplied_def)
qed

lemma startsWith_append [simp]: "startsWith (t @ r) t"
  by (induction t) simp_all

lemma mentions_prefix: "mentions (t @ r) t"
proof (cases "t @ r")
  case Nil
  then show ?thesis by simp
next
  case (Cons x xs)
  have "startsWith (t @ r) t" by simp
  then show ?thesis using Cons by simp
qed

lemma mentions_self: "mentions t t"
  using mentions_prefix [of t "[]"] by simp

lemma mentions_appendI: "mentions ys t \<Longrightarrow> mentions (xs @ ys) t"
  by (induction xs) simp_all

lemma handler_records:
  assumes "try_block tkn args event w = (Inl err, w1)"
  shows "console (snd (handler tkn args event w))
             = console w1 @ [EVENT_ERROR (errorContext tkn args) err]
           \<and> errors_log (snd (handler tkn args event w))
             = errors_log w1 @ [(errorContext tkn args, err)]
         \<or> console (snd (handler tkn args event w))
             = console w1 @ [EVENT_ERROR (errorContext tkn args) err, LOG_WRITE_FAILED WriteError]
           \<and> errors_log (snd (handler tkn args event w)) = errors_log w1"
proof -
  let ?h = "on_error (errorContext tkn args) err w1"
  have "handler tkn args event w = ?h"
    using assms by (simp add: handler_catch catchE_def)
  then show ?thesis
    using on_error_frame [of "errorContext tkn args" err w1 "fst ?h" "snd ?h"] by simp
qed

lemma errorContext_mentions:
  "mentions (errorContext tkn (BorrowEvent b ba ab tb)) (typeName Borrow)"
  "mentions (errorContext tkn (BorrowEvent b ba ab tb)) (symbol tkn)"
  "mentions (errorContext tkn (BorrowEvent b ba ab tb)) b"
  "mentions (errorContext tkn (RepayBorrowEvent p b ra ab tb)) (typeName RepayBorrow)"
  "mentions (errorContext tkn (RepayBorrowEvent p b ra ab tb)) (symbol tkn)"
  "mentions (errorContext tkn (RepayBorrowEvent p b ra ab tb)) b"
  "mentions (errorContext tkn (RepayBorrowEvent p b ra ab tb)) p"
  "mentions (errorContext tkn (MintEvent m ma mt)) (typeName Mint)"
  "mentions (errorContext tkn (MintEvent m ma mt)) (symbol tkn)"
  "mentions (errorContext tkn (MintEvent m ma mt)) m"
  "mentions (errorContext tkn (RedeemEvent d da dt)) (typeName Redeem)"
  "mentions (errorContext tkn (RedeemEvent d da dt)) (symbol tkn)"
  "mentions (errorContext tkn (RedeemEvent d da dt)) d"
  "mentions (errorContext tkn (LiquidateBorrowEvent l b ra c st)) (typeName LiquidateBorrow)"
  "mentions (errorContext tkn (LiquidateBorrowEvent l b ra c st)) (symbol tkn)"
  "mentions (errorContext tkn (LiquidateBorrowEvent l b ra c st)) l"
  "mentions (errorContext tkn (LiquidateBorrowEvent l b ra c st)) b"
  "mentions (errorContext tkn (TransferEvent f t a)) (typeName Transfer)"
  "mentions (errorContext tkn (TransferEvent f t a)) (contractName tkn)"
  unfolding errorContext.simps Borrow_errorContext_def RepayBorrow_errorContext_def
    Mint_errorContext_def Redeem_errorContext_def LiquidateBorrow_errorContext_def
    Transfer_errorContext_def typeName_def EventType.case
  by (simp_all only: mentions_appendI mentions_prefix mentions_self) simp_all

section \<open>Anomaly records and logged transactions\<close>

lemma db_insert_userTransactions_served:
  assumes "db_insert_userTransactions row w = (r, w')" and "\<not> next_call_fails w"
  shows "tx_id row \<in> set (map tx_id (userTransactions w'))
         \<and> (tx_id row \<notin> set (map tx_id (userTransactions w))
              \<longrightarrow> r = Inr () \<and> userTransactions w' = userTransactions w @ [row])"
  using assms
  by (auto simp: db_insert_userTransactions_def bindE_def external_call_def next_call_fails_def
           split: list.splits if_splits)

lemma logError_balanceErrors:
  assumes "logError err context w = (r, w')"
  shows "filter isBalanceError (console w') = filter isBalanceError (console w)"
  using logError_frame [OF assms] by auto

lemma storeEvent_balanceErrors:
  assumes "storeEvent ev w = (r, w')"
  shows "balanceErrors w' = balanceErrors w"
proof -
  let ?ins = "db_insert_userTransactions (transactionRow ev)"
  obtain r1 w1 where ins: "?ins w = (r1, w1)" by (cases "?ins w")
  note f1 = db_insert_userTransactions_frame [OF ins]
  show ?thesis
    using assms ins f1
    by (auto simp: storeEvent_def catchE_def bindE_def Let_def balanceErrors_def
             split: prod.splits sum.splits option.splits if_splits
             dest!: db_insert_userAddresses_frame logError_balanceErrors)
qed

lemma storeEvent_logged:
  assumes "storeEvent ev w = (r, w')" and "\<not> next_call_fails w"
  shows "eventId ev \<in> set (map tx_id (userTransactions w'))
         \<and> (eventId ev \<notin> set (map tx_id (userTransactions w))
              \<longrightarrow> userTransactions w' = userTransactions w @ [transactionRow ev])"
proof -
  let ?ins = "db_insert_userTransactions (transactionRow ev)"
  obtain r1 w1 where ins: "?ins w = (r1, w1)" by (cases "?ins w")
  have id: "tx_id (transactionRow ev) = eventId ev" by (simp add: transactionRow_def)
  note f1 = db_insert_userTransactions_served [OF ins assms(2), unfolded id]
  show ?thesis
    using assms(1) ins f1
    by (auto simp: storeEvent_def catchE_def bindE_def Let_def
             split: prod.splits sum.splits option.splits if_splits
             dest!: db_insert_userAddresses_frame logError_frame)
qed

lemma debit_console:
  assumes "debit what f fd a w = (r, w')"
  shows "balanceErrors w' = balanceErrors w + (if fd ! 0 \<ge> a then 0 else 1)"
  using assms
  by (auto simp: debit_def Let_def bindE_def console_error_def returnE_def balanceErrors_def
           split: if_splits)
lemma storeEvent_full:
  assumes "storeEvent ev w = (r, w')"
  shows "r = Inr () \<and> userMetrics w' = userMetrics w \<and> balanceErrors w' = balanceErrors w
         \<and> (\<not> next_call_fails w \<longrightarrow> eventId ev \<in> set (map tx_id (userTransactions w')))"
  using storeEvent_frame [OF assms] storeEvent_balanceErrors [OF assms] storeEvent_logged [OF assms]
  by simp

lemma debit_full:
  assumes "debit what f fd a w = (r, w')"
  shows "userMetrics w' = userMetrics w \<and> userTransactions w' = userTransactions w
         \<and> balanceErrors w' = balanceErrors w + (if fd ! 0 \<ge> a then 0 else 1)"
  using debit_frame [OF assms] debit_console [OF assms] by simp

lemma find_balanceErrors:
  assumes "db_find_userMetrics a w = (r, w')"
  shows "userMetrics w' = userMetrics w \<and> userTransactions w' = userTransactions w
         \<and> balanceErrors w' = balanceErrors w
         \<and> (r = Inr (userMetrics w a) \<or> r = Inl StorageError)"
  using db_find_userMetrics_frame [OF assms] by (simp add: balanceErrors_def)

lemma upsert_balanceErrors:
  assumes "db_upsert_userMetrics a s td w = (r, w')"
  shows "userTransactions w' = userTransactions w \<and> balanceErrors w' = balanceErrors w"
  using db_upsert_userMetrics_frame [OF assms] by (simp add: balanceErrors_def)

lemma Transfer_debit_record:
  assumes "f \<noteq> zeroAddress"
    and "Transfer_try tkn f t a ev w = (Inr (), w')"
  shows "balanceErrors w' = balanceErrors w
           + (if amountSupplied w f (symbol tkn) \<ge> a then 0 else 1)
         \<and> (\<not> next_call_fails w \<longrightarrow>
               transaction_hash ev @ ''-'' @ toString (log_logIndex ev)
                 \<in> set (map tx_id (userTransactions w')))"
  using assms unfolding Transfer_try_def Let_def amountSupplied_def
  by (auto simp: bindE_Inr_iff eventId_def split: if_splits
           dest!: storeEvent_full find_balanceErrors upsert_balanceErrors debit_full)

lemma store_only_logged:
  assumes "catchE (storeEvent ev) (on_error c) w = (r, w')"
    and "\<not> next_call_fails w"
    and "eventId ev \<notin> set (map tx_id (userTransactions w))"
  shows "userTransactions w' = userTransactions w @ [transactionRow ev]"
proof -
  obtain r1 w1 where s: "storeEvent ev w = (r1, w1)" by (cases "storeEvent ev w")
  have "r1 = Inr ()" using storeEvent_frame [OF s] by simp
  with s assms(1) have "w' = w1" by (simp add: catchE_def)
  then show ?thesis using storeEvent_logged [OF s assms(2)] assms(3) by simp
qed

section \<open>The transaction log\<close>

text \<open>
  C2: when the transaction log already holds a row with the id of the event (the
  \<open>(transactionHash, logIndex)\<close> key), \<open>storeEvent\<close> returns normally and leaves the
  log as it was: no row is added, the row count is the same, and the other two tables
  are untouched as well. This holds whatever the storage does on that call (it rejects
  the duplicate key, or fails otherwise).
\<close>

theorem C2_duplicate_insert_is_noop:
  assumes "eventId ev \<in> set (map tx_id (userTransactions w))"
  shows "fst (storeEvent ev w) = Inr ()
         \<and> userTransactions (snd (storeEvent ev w)) = userTransactions w
         \<and> length (userTransactions (snd (storeEvent ev w))) = length (userTransactions w)
         \<and> userAddresses (snd (storeEvent ev w)) = userAddresses w
         \<and> userMetrics (snd (storeEvent ev w)) = userMetrics w"
proof -
  obtain r w' where run: "storeEvent ev w = (r, w')" by (cases "storeEvent ev w")
  from storeEvent_frame [OF run] storeEvent_replay [OF run assms] run
  show ?thesis by simp
qed

text \<open>
  The first insert of \<open>sampleEvent\<close> into empty tables creates one row; the second
  insert of the same event returns normally and the log still has one row.
\<close>

theorem C2_duplicate_insert_is_noop_witness:
  "eventId sampleEvent \<in> set (map tx_id (userTransactions (snd (storeEvent sampleEvent emptyWorld))))
   \<and> length (userTransactions (snd (storeEvent sampleEvent emptyWorld))) = 1
   \<and> fst (storeEvent sampleEvent (snd (storeEvent sampleEvent emptyWorld))) = Inr ()
   \<and> length (userTransactions
         (snd (storeEvent sampleEvent (snd (storeEvent sampleEvent emptyWorld))))) = 1"
proof -
  have h: "eventId sampleEvent
             \<in> set (map tx_id (userTransactions (snd (storeEvent sampleEvent emptyWorld))))"
    by (simp add: eval_defs)
  have n: "length (userTransactions (snd (storeEvent sampleEvent emptyWorld))) = 1"
    by (simp add: eval_defs)
  from C2_duplicate_insert_is_noop [OF h] h n show ?thesis by simp
qed

section \<open>Borrow and RepayBorrow\<close>

text \<open>
  C4: a Borrow or RepayBorrow event whose handler completes its \<open>try\<close> block (no storage
  call outside \<open>storeEvent\<close> raises) leaves the borrower's \<open>amountBorrowed\<close> for the token
  equal to the event's \<open>accountBorrows\<close>, and the borrower's \<open>amountSupplied\<close> for the
  token as it was.
\<close>

theorem C4_borrow_repay_overwrite:
  assumes "args = BorrowEvent borrower borrowAmount accountBorrows totalBorrows
           \<or> args = RepayBorrowEvent payer borrower repayAmount accountBorrows totalBorrows"
    and "fst (try_block tkn args event w) = Inr ()"
  shows "amountBorrowed (snd (handler tkn args event w)) borrower (symbol tkn) = accountBorrows
         \<and> amountSupplied (snd (handler tkn args event w)) borrower (symbol tkn)
             = amountSupplied w borrower (symbol tkn)"
proof -
  obtain r w' where run: "try_block tkn args event w = (r, w')"
    by (cases "try_block tkn args event w")
  with assms(2) have r: "r = Inr ()" by simp
  from borrow_repay_effect [OF assms(1) run] r
  have upd: "userMetrics w' = (userMetrics w)(borrower \<mapsto>
            upsertRow (userMetrics w borrower) (symbol tkn)
              [amountSupplied w borrower (symbol tkn), accountBorrows])"
    by auto
  have "handler tkn args event w = (r, w')"
    using handler_completed [OF assms(2)] run by simp
  then show ?thesis
    by (simp add: amountBorrowed_upsert [OF upd] amountSupplied_upsert [OF upd])
qed

text \<open>
  Scenario A: a Borrow with \<open>accountBorrows = 100\<close> gives 100, and a RepayBorrow of 40
  with \<open>accountBorrows = 60\<close> after it gives 60; the supplied amount stays 0.
\<close>

theorem C4_borrow_repay_overwrite_witness:
  "fst (try_block DAI (BorrowEvent userU 100 100 100) sampleLocation emptyWorld) = Inr ()
   \<and> amountBorrowed (snd (handler DAI (BorrowEvent userU 100 100 100) sampleLocation emptyWorld))
        userU ''DAI'' = 100
   \<and> amountSupplied (snd (handler DAI (BorrowEvent userU 100 100 100) sampleLocation emptyWorld))
        userU ''DAI'' = 0
   \<and> fst (try_block DAI (RepayBorrowEvent userU userU 40 60 60) sampleLocation
            (snd (handler DAI (BorrowEvent userU 100 100 100) sampleLocation emptyWorld)))
        = Inr ()
   \<and> amountBorrowed
        (snd (handler DAI (RepayBorrowEvent userU userU 40 60 60) sampleLocation
           (snd (handler DAI (BorrowEvent userU 100 100 100) sampleLocation emptyWorld))))
        userU ''DAI'' = 60"
proof -
  let ?w1 = "snd (handler DAI (BorrowEvent userU 100 100 100) sampleLocation emptyWorld)"
  have h: "fst (try_block DAI (BorrowEvent userU 100 100 100) sampleLocation emptyWorld) = Inr ()"
    by (simp add: eval_defs)
  have s: "amountSupplied emptyWorld userU ''DAI'' = 0"
    by (simp add: eval_defs)
  have h2: "fst (try_block DAI (RepayBorrowEvent userU userU 40 60 60) sampleLocation ?w1)
              = Inr ()"
    by (simp add: eval_defs)
  from C4_borrow_repay_overwrite [OF disjI1 [OF refl] h]
       C4_borrow_repay_overwrite [OF disjI2 [OF refl] h2] h h2 s
  show ?thesis by (simp add: DAI_def)
qed

text \<open>
  C5: when a Borrow or RepayBorrow event has been handled to completion, handling the
  same event once more leaves the borrower's \<open>amountBorrowed\<close> for the token as the first
  handling left it, whatever happens to the storage calls of the second handling.
\<close>

theorem C5_borrow_repay_idempotent:
  assumes "args = BorrowEvent borrower borrowAmount accountBorrows totalBorrows
           \<or> args = RepayBorrowEvent payer borrower repayAmount accountBorrows totalBorrows"
    and "fst (try_block tkn args event w) = Inr ()"
  shows "amountBorrowed (snd (handler tkn args event (snd (handler tkn args event w))))
           borrower (symbol tkn)
         = amountBorrowed (snd (handler tkn args event w)) borrower (symbol tkn)"
proof -
  let ?w1 = "snd (handler tkn args event w)"
  obtain r w' where run: "try_block tkn args event w = (r, w')"
    by (cases "try_block tkn args event w")
  with assms(2) have r: "r = Inr ()" by simp
  from borrow_repay_effect [OF assms(1) run] r
  have upd: "userMetrics w' = (userMetrics w)(borrower \<mapsto>
            upsertRow (userMetrics w borrower) (symbol tkn)
              [amountSupplied w borrower (symbol tkn), accountBorrows])"
    by auto
  have w1: "?w1 = w'" using handler_completed [OF assms(2)] run by simp
  have once: "amountBorrowed ?w1 borrower (symbol tkn) = accountBorrows"
    by (simp add: w1 amountBorrowed_upsert [OF upd])
  obtain r2 w2 where run2: "try_block tkn args event ?w1 = (r2, w2)"
    by (cases "try_block tkn args event ?w1")
  have m2: "userMetrics (snd (handler tkn args event ?w1)) = userMetrics w2"
    using handler_userMetrics [of tkn args event ?w1] run2 by simp
  from borrow_repay_effect [OF assms(1) run2]
  have "amountBorrowed w2 borrower (symbol tkn) = accountBorrows"
  proof (elim disjE conjE)
    assume upd2: "userMetrics w2 = (userMetrics ?w1)(borrower \<mapsto>
            upsertRow (userMetrics ?w1 borrower) (symbol tkn)
              [amountSupplied ?w1 borrower (symbol tkn), accountBorrows])"
    show ?thesis by (simp add: amountBorrowed_upsert [OF upd2])
  next
    assume "userMetrics w2 = userMetrics ?w1"
    then show ?thesis using once by (simp add: amountBorrowed_def)
  qed
  then show ?thesis using once m2 by (simp add: amountBorrowed_def)
qed

text \<open>
  A RepayBorrow with \<open>accountBorrows = 60\<close> on a position \<open>[7, 100]\<close>, handled twice: 60
  after the first handling and 60 after the second.
\<close>

theorem C5_borrow_repay_idempotent_witness:
  "fst (try_block DAI (RepayBorrowEvent userV userU 40 60 60) sampleLocation
          (worldWith userU [7, 100])) = Inr ()
   \<and> amountBorrowed
        (snd (handler DAI (RepayBorrowEvent userV userU 40 60 60) sampleLocation
           (worldWith userU [7, 100]))) userU ''DAI'' = 60
   \<and> amountBorrowed
        (snd (handler DAI (RepayBorrowEvent userV userU 40 60 60) sampleLocation
           (snd (handler DAI (RepayBorrowEvent userV userU 40 60 60) sampleLocation
              (worldWith userU [7, 100]))))) userU ''DAI'' = 60"
proof -
  have h: "fst (try_block DAI (RepayBorrowEvent userV userU 40 60 60) sampleLocation
                  (worldWith userU [7, 100])) = Inr ()"
    by (simp add: eval_defs)
  have o: "amountBorrowed
        (snd (handler DAI (RepayBorrowEvent userV userU 40 60 60) sampleLocation
           (worldWith userU [7, 100]))) userU ''DAI'' = 60"
    by (simp add: eval_defs)
  from C5_borrow_repay_idempotent [OF disjI2 [OF refl] h] h o
  show ?thesis by (simp add: DAI_def)
qed

section \<open>Mint and Redeem\<close>

text \<open>
  C7: the Mint and the Redeem handler leave the whole \<open>user_metrics\<close> table as it was,
  so every user's \<open>amountSupplied\<close> and \<open>amountBorrowed\<close> for every token is unchanged;
  the transaction log keeps its rows and gains at most one. This holds for every state
  and whatever the storage calls do. When the insert into the log is not made to fail
  and the id of the event is not yet in the log, the log gains exactly the row of the
  event: its id, the minter or redeemer, the market, the type \<open>Mint\<close> or \<open>Redeem\<close>, the
  two amounts and the chain location.
\<close>

theorem C7_mint_redeem_leave_balances:
  "userMetrics (snd (onMint tkn minter mintAmount mintTokens event w)) = userMetrics w
   \<and> amountSupplied (snd (onMint tkn minter mintAmount mintTokens event w)) = amountSupplied w
   \<and> amountBorrowed (snd (onMint tkn minter mintAmount mintTokens event w)) = amountBorrowed w
   \<and> take (length (userTransactions w))
        (userTransactions (snd (onMint tkn minter mintAmount mintTokens event w)))
       = userTransactions w
   \<and> length (userTransactions (snd (onMint tkn minter mintAmount mintTokens event w)))
       \<le> length (userTransactions w) + 1
   \<and> userMetrics (snd (onRedeem tkn redeemer redeemAmount redeemTokens event w)) = userMetrics w
   \<and> amountSupplied (snd (onRedeem tkn redeemer redeemAmount redeemTokens event w))
       = amountSupplied w
   \<and> amountBorrowed (snd (onRedeem tkn redeemer redeemAmount redeemTokens event w))
       = amountBorrowed w
   \<and> take (length (userTransactions w))
        (userTransactions (snd (onRedeem tkn redeemer redeemAmount redeemTokens event w)))
       = userTransactions w
   \<and> length (userTransactions (snd (onRedeem tkn redeemer redeemAmount redeemTokens event w)))
       \<le> length (userTransactions w) + 1
   \<and> (\<not> next_call_fails w
        \<and> transaction_hash event @ ''-'' @ toString (log_logIndex event)
             \<notin> set (map tx_id (userTransactions w))
       \<longrightarrow> userTransactions (snd (onMint tkn minter mintAmount mintTokens event w))
             = userTransactions w @
               [\<lparr>tx_id = transaction_hash event @ ''-'' @ toString (log_logIndex event),
                 tx_userAddress = minter, tx_mTokenAddress = address tkn,
                 tx_tokenSymbol = symbol tkn, tx_transactionType = Mint,
                 tx_amount = mintAmount, tx_tokenAmount = Some mintTokens,
                 tx_relatedAddress = None, tx_blockNumber = block_number event,
                 tx_blockTimestamp = block_timestamp event,
                 tx_transactionHash = transaction_hash event\<rparr>]
           \<and> userTransactions (snd (onRedeem tkn redeemer redeemAmount redeemTokens event w))
             = userTransactions w @
               [\<lparr>tx_id = transaction_hash event @ ''-'' @ toString (log_logIndex event),
                 tx_userAddress = redeemer, tx_mTokenAddress = address tkn,
                 tx_tokenSymbol = symbol tkn, tx_transactionType = Redeem,
                 tx_amount = redeemAmount, tx_tokenAmount = Some redeemTokens,
                 tx_relatedAddress = None, tx_blockNumber = block_number event,
                 tx_blockTimestamp = block_timestamp event,
                 tx_transactionHash = transaction_hash event\<rparr>])"
proof -
  obtain r1 w1 where m: "onMint tkn minter mintAmount mintTokens event w = (r1, w1)"
    by (cases "onMint tkn minter mintAmount mintTokens event w")
  obtain r2 w2 where r: "onRedeem tkn redeemer redeemAmount redeemTokens event w = (r2, w2)"
    by (cases "onRedeem tkn redeemer redeemAmount redeemTokens event w")
  note m' = m [unfolded onMint_def Mint_try_def Let_def]
  note r' = r [unfolded onRedeem_def Redeem_try_def Let_def]
  note a = store_only [OF m']
  note b = store_only [OF r']
  have frame: "userMetrics w1 = userMetrics w
     \<and> amountSupplied w1 = amountSupplied w \<and> amountBorrowed w1 = amountBorrowed w
     \<and> take (length (userTransactions w)) (userTransactions w1) = userTransactions w
     \<and> length (userTransactions w1) \<le> length (userTransactions w) + 1
     \<and> userMetrics w2 = userMetrics w
     \<and> amountSupplied w2 = amountSupplied w \<and> amountBorrowed w2 = amountBorrowed w
     \<and> take (length (userTransactions w)) (userTransactions w2) = userTransactions w
     \<and> length (userTransactions w2) \<le> length (userTransactions w) + 1"
    using a b by (simp add: amountSupplied_def amountBorrowed_def fun_eq_iff)
  have logged: "userTransactions w1
             = userTransactions w @
               [\<lparr>tx_id = transaction_hash event @ ''-'' @ toString (log_logIndex event),
                 tx_userAddress = minter, tx_mTokenAddress = address tkn,
                 tx_tokenSymbol = symbol tkn, tx_transactionType = Mint,
                 tx_amount = mintAmount, tx_tokenAmount = Some mintTokens,
                 tx_relatedAddress = None, tx_blockNumber = block_number event,
                 tx_blockTimestamp = block_timestamp event,
                 tx_transactionHash = transaction_hash event\<rparr>]
           \<and> userTransactions w2
             = userTransactions w @
               [\<lparr>tx_id = transaction_hash event @ ''-'' @ toString (log_logIndex event),
                 tx_userAddress = redeemer, tx_mTokenAddress = address tkn,
                 tx_tokenSymbol = symbol tkn, tx_transactionType = Redeem,
                 tx_amount = redeemAmount, tx_tokenAmount = Some redeemTokens,
                 tx_relatedAddress = None, tx_blockNumber = block_number event,
                 tx_blockTimestamp = block_timestamp event,
                 tx_transactionHash = transaction_hash event\<rparr>]"
    if "\<not> next_call_fails w"
      and "transaction_hash event @ ''-'' @ toString (log_logIndex event)
             \<notin> set (map tx_id (userTransactions w))"
    using store_only_logged [OF m' that(1)] store_only_logged [OF r' that(1)] that(2)
    by (simp add: eventId_def transactionRow_def)
  show ?thesis
    unfolding m r snd_conv using frame logged by blast
qed

text \<open>
  A Mint of 70 and a Redeem of 20 on a position \<open>[50, 10]\<close>: the position stays
  \<open>[50, 10]\<close> and the log, empty before, holds the one row of the event.
\<close>

theorem C7_mint_redeem_leave_balances_witness:
  "\<not> next_call_fails (worldWith userU [50, 10])
   \<and> transaction_hash sampleLocation @ ''-'' @ toString (log_logIndex sampleLocation)
        \<notin> set (map tx_id (userTransactions (worldWith userU [50, 10])))
   \<and> amountSupplied (snd (onMint DAI userU 70 3500 sampleLocation (worldWith userU [50, 10])))
        userU ''DAI'' = 50
   \<and> amountBorrowed (snd (onMint DAI userU 70 3500 sampleLocation (worldWith userU [50, 10])))
        userU ''DAI'' = 10
   \<and> map tx_transactionType
        (userTransactions (snd (onMint DAI userU 70 3500 sampleLocation
           (worldWith userU [50, 10])))) = [Mint]
   \<and> map tx_userAddress
        (userTransactions (snd (onMint DAI userU 70 3500 sampleLocation
           (worldWith userU [50, 10])))) = [userU]
   \<and> map tx_amount
        (userTransactions (snd (onMint DAI userU 70 3500 sampleLocation
           (worldWith userU [50, 10])))) = [70]
   \<and> amountSupplied (snd (onRedeem DAI userU 20 1000 sampleLocation (worldWith userU [50, 10])))
        userU ''DAI'' = 50
   \<and> map tx_transactionType
        (userTransactions (snd (onRedeem DAI userU 20 1000 sampleLocation
           (worldWith userU [50, 10])))) = [Redeem]
   \<and> map tx_amount
        (userTransactions (snd (onRedeem DAI userU 20 1000 sampleLocation
           (worldWith userU [50, 10])))) = [20]"
proof -
  let ?w = "worldWith userU [50, 10]"
  have n: "\<not> next_call_fails ?w" by (simp add: eval_defs)
  have f: "transaction_hash sampleLocation @ ''-'' @ toString (log_logIndex sampleLocation)
             \<notin> set (map tx_id (userTransactions ?w))"
    by (simp add: eval_defs)
  have e: "userTransactions ?w = []" by (simp add: eval_defs)
  have s: "amountSupplied ?w userU ''DAI'' = 50" "amountBorrowed ?w userU ''DAI'' = 10"
    by (simp_all add: eval_defs)
  from C7_mint_redeem_leave_balances
         [of DAI userU 70 3500 sampleLocation ?w userU 20 1000] n f e s
  show ?thesis by simp
qed

section \<open>LiquidateBorrow\<close>

text \<open>
  C1, evaluated on the code: a borrower with the position \<open>[0, 5]\<close> in DAI is liquidated
  with \<open>repayAmount = 10\<close>. The handler stores \<open>5 - 10 = -5\<close> as the borrowed amount, prints
  nothing to the error console and appends nothing to the error log.
\<close>

theorem C1_liquidation_not_clamped:
  "amountBorrowed (worldWith userU [0, 5]) userU ''DAI'' = 5
   \<and> amountBorrowed
        (snd (handler DAI (LiquidateBorrowEvent liquidatorL userU 10 (address DAI) 3)
           sampleLocation (worldWith userU [0, 5]))) userU ''DAI'' = - 5
   \<and> console
        (snd (handler DAI (LiquidateBorrowEvent liquidatorL userU 10 (address DAI) 3)
           sampleLocation (worldWith userU [0, 5]))) = []
   \<and> errors_log
        (snd (handler DAI (LiquidateBorrowEvent liquidatorL userU 10 (address DAI) 3)
           sampleLocation (worldWith userU [0, 5]))) = []"
  by (simp add: eval_defs)

section \<open>Transfer\<close>

text \<open>
  C6 as stated fails on the code when sender and receiver are the same address: an
  address with the position \<open>[5, 0]\<close> in DAI transfers 1000 to itself. The handler clamps
  the debit to 0, prints one \<open>[BALANCE ERROR]\<close> line and logs the transaction, and then
  credits the receiver with the full amount as for every ordinary transfer, so the
  supplied amount it leaves is 1005 and not 0.
\<close>

theorem C6_self_transfer_not_clamped:
  "amountSupplied (worldWith userU [5, 0]) userU ''DAI'' = 5
   \<and> amountSupplied
        (snd (handler DAI (TransferEvent userU userU 1000) sampleLocation
           (worldWith userU [5, 0]))) userU ''DAI'' = 1005
   \<and> console
        (snd (handler DAI (TransferEvent userU userU 1000) sampleLocation
           (worldWith userU [5, 0])))
       = [BALANCE_ERROR (''Insufficient balance for transfer: '' @ userU @ '' has ''
            @ toString 5 @ '', trying to transfer '' @ toString 1000)]
   \<and> map tx_id (userTransactions
        (snd (handler DAI (TransferEvent userU userU 1000) sampleLocation
           (worldWith userU [5, 0]))))
       = [transaction_hash sampleLocation @ ''-'' @ toString (log_logIndex sampleLocation)]"
  by (simp add: eval_defs)

text \<open>
  C6, amended: a Transfer from a non-zero sender to a different address (the burn
  pattern, or an ordinary transfer to another user) whose amount exceeds the sender's
  current \<open>amountSupplied\<close>, handled to completion, leaves the sender's \<open>amountSupplied\<close>
  at exactly zero and adds exactly one \<open>[BALANCE ERROR]\<close> record; and the log holds the
  transaction of the event afterwards, provided the insert into the log was not made to
  fail.
\<close>

theorem C6_underflow_clamped:
  assumes "fromAddress \<noteq> zeroAddress" and "fromAddress \<noteq> toAddress"
    and "amountSupplied w fromAddress (symbol tkn) < transferAmount"
    and "fst (try_block tkn (TransferEvent fromAddress toAddress transferAmount) event w)
           = Inr ()"
  shows "amountSupplied
           (snd (handler tkn (TransferEvent fromAddress toAddress transferAmount) event w))
           fromAddress (symbol tkn) = 0
         \<and> balanceErrors
             (snd (handler tkn (TransferEvent fromAddress toAddress transferAmount) event w))
            = balanceErrors w + 1
         \<and> (\<not> next_call_fails w \<longrightarrow>
               transaction_hash event @ ''-'' @ toString (log_logIndex event)
                 \<in> set (map tx_id (userTransactions
                      (snd (handler tkn (TransferEvent fromAddress toAddress transferAmount)
                         event w)))))"
proof -
  let ?args = "TransferEvent fromAddress toAddress transferAmount"
  obtain r w' where run: "try_block tkn ?args event w = (r, w')"
    by (cases "try_block tkn ?args event w")
  with assms(4) have t: "Transfer_try tkn fromAddress toAddress transferAmount event w
                           = (Inr (), w')"
    by simp
  have hw: "snd (handler tkn ?args event w) = w'"
    using handler_completed [OF assms(4)] run by simp
  have zero: "amountSupplied w' fromAddress (symbol tkn) = 0"
  proof (cases "toAddress = zeroAddress")
    case True
    show ?thesis using assms(3) by (simp add: Transfer_burn_supplied [OF assms(1) True t])
  next
    case False
    show ?thesis
      using assms(3) by (simp add: Transfer_ordinary_supplied [OF assms(1) False assms(2) t])
  qed
  show ?thesis
    unfolding hw using zero Transfer_debit_record [OF assms(1) t] assms(3) by simp
qed

text \<open>
  Scenario D: 1000 sent from a supply of 5 to another user, and the same amount burnt:
  the sender is left with 0, one anomaly is recorded and the transaction is in the log.
\<close>

theorem C6_underflow_clamped_witness:
  "userU \<noteq> zeroAddress \<and> userU \<noteq> userV
   \<and> amountSupplied (worldWith userU [5, 0]) userU ''DAI'' = 5
   \<and> fst (try_block DAI (TransferEvent userU userV 1000) sampleLocation
            (worldWith userU [5, 0])) = Inr ()
   \<and> \<not> next_call_fails (worldWith userU [5, 0])
   \<and> amountSupplied
        (snd (handler DAI (TransferEvent userU userV 1000) sampleLocation
           (worldWith userU [5, 0]))) userU ''DAI'' = 0
   \<and> balanceErrors (worldWith userU [5, 0]) = 0
   \<and> balanceErrors
        (snd (handler DAI (TransferEvent userU userV 1000) sampleLocation
           (worldWith userU [5, 0]))) = 1
   \<and> transaction_hash sampleLocation @ ''-'' @ toString (log_logIndex sampleLocation)
        \<in> set (map tx_id (userTransactions
             (snd (handler DAI (TransferEvent userU userV 1000) sampleLocation
                (worldWith userU [5, 0])))))
   \<and> amountSupplied
        (snd (handler DAI (TransferEvent userU zeroAddress 1000) sampleLocation
           (worldWith userU [5, 0]))) userU ''DAI'' = 0
   \<and> balanceErrors
        (snd (handler DAI (TransferEvent userU zeroAddress 1000) sampleLocation
           (worldWith userU [5, 0]))) = 1"
proof -
  let ?w = "worldWith userU [5, 0]"
  have z: "userU \<noteq> zeroAddress" "userU \<noteq> userV"
    by (simp_all add: userU_def userV_def zeroAddress_def)
  have s: "amountSupplied ?w userU ''DAI'' = 5" by (simp add: eval_defs)
  have lt: "amountSupplied ?w userU (symbol DAI) < 1000" by (simp add: eval_defs)
  have h: "fst (try_block DAI (TransferEvent userU userV 1000) sampleLocation ?w) = Inr ()"
    by (simp add: eval_defs)
  have hb: "fst (try_block DAI (TransferEvent userU zeroAddress 1000) sampleLocation ?w) = Inr ()"
    by (simp add: eval_defs)
  have n: "\<not> next_call_fails ?w" by (simp add: eval_defs)
  have b0: "balanceErrors ?w = 0" by (simp add: eval_defs)
  from C6_underflow_clamped [OF z(1) z(2) lt h]
       C6_underflow_clamped [OF z(1) z(1) lt hb]
       z s h n b0
  show ?thesis by (simp add: DAI_def)
qed

text \<open>
  C9: an ordinary Transfer whose \<open>from\<close> and \<open>to\<close> are the same non-zero address, handled
  to completion, leaves that address with its prior \<open>amountSupplied\<close> plus the amount:
  the credit is computed from the cell read before the debit was written, and its upsert
  comes second.
\<close>

theorem C9_self_transfer_credits:
  assumes "fromAddress \<noteq> zeroAddress"
    and "fst (try_block tkn (TransferEvent fromAddress fromAddress transferAmount) event w)
           = Inr ()"
  shows "amountSupplied
           (snd (handler tkn (TransferEvent fromAddress fromAddress transferAmount) event w))
           fromAddress (symbol tkn)
         = amountSupplied w fromAddress (symbol tkn) + transferAmount"
proof -
  let ?args = "TransferEvent fromAddress fromAddress transferAmount"
  obtain r w' where run: "try_block tkn ?args event w = (r, w')"
    by (cases "try_block tkn ?args event w")
  with assms(2) have run': "Transfer_try tkn fromAddress fromAddress transferAmount event w
                              = (Inr (), w')"
    by simp
  have "handler tkn ?args event w = (r, w')"
    using handler_completed [OF assms(2)] run by simp
  then show ?thesis
    by (simp add: Transfer_self_supplied [OF assms(1) run'])
qed

text \<open>A self-transfer of 20 on a supply of 50 leaves 70.\<close>

theorem C9_self_transfer_credits_witness:
  "userU \<noteq> zeroAddress
   \<and> fst (try_block DAI (TransferEvent userU userU 20) sampleLocation (worldWith userU [50, 0]))
       = Inr ()
   \<and> amountSupplied (worldWith userU [50, 0]) userU ''DAI'' = 50
   \<and> amountSupplied
        (snd (handler DAI (TransferEvent userU userU 20) sampleLocation
           (worldWith userU [50, 0]))) userU ''DAI'' = 70"
proof -
  have z: "userU \<noteq> zeroAddress" by (simp add: userU_def zeroAddress_def)
  have h: "fst (try_block DAI (TransferEvent userU userU 20) sampleLocation
                  (worldWith userU [50, 0])) = Inr ()"
    by (simp add: eval_defs)
  have s: "amountSupplied (worldWith userU [50, 0]) userU ''DAI'' = 50"
    by (simp add: eval_defs)
  from C9_self_transfer_credits [OF z h] z h s show ?thesis by (simp add: DAI_def)
qed

section \<open>Replayed events\<close>

text \<open>
  C10: when the transaction log already holds the id of a LiquidateBorrow or Transfer
  event and the handler completes its \<open>try\<close> block, the log is left as it was (the insert
  was rejected inside \<open>storeEvent\<close>, which swallowed the error) and the balance change is
  applied all the same (\<open>storeEvent\<close> itself never raises, whatever its storage calls
  do): the borrower's two-element cell loses \<open>repayAmount\<close> of its
  borrowed amount, the receiver of a transfer gains the amount, and the sender of a
  transfer to another address loses it (down to zero).
\<close>

theorem C10_replayed_delta_applied_again:
  assumes "transaction_hash event @ ''-'' @ toString (log_logIndex event)
             \<in> set (map tx_id (userTransactions w))"
    and "fst (try_block tkn args event w) = Inr ()"
  shows "fst (storeEvent indexedEvent w) = Inr ()
       \<and> (args = LiquidateBorrowEvent liquidator borrower repayAmount mTokenCollateral seizeTokens
            \<and> userMetrics w borrower = Some row \<and> length (row (symbol tkn)) = 2
          \<longrightarrow> userTransactions (snd (handler tkn args event w)) = userTransactions w
              \<and> amountBorrowed (snd (handler tkn args event w)) borrower (symbol tkn)
                  = amountBorrowed w borrower (symbol tkn) - repayAmount)
       \<and> (args = TransferEvent fromAddress toAddress transferAmount
            \<and> toAddress \<noteq> zeroAddress
          \<longrightarrow> userTransactions (snd (handler tkn args event w)) = userTransactions w
              \<and> amountSupplied (snd (handler tkn args event w)) toAddress (symbol tkn)
                  = amountSupplied w toAddress (symbol tkn) + transferAmount)
       \<and> (args = TransferEvent fromAddress toAddress transferAmount
            \<and> fromAddress \<noteq> zeroAddress \<and> fromAddress \<noteq> toAddress
          \<longrightarrow> amountSupplied (snd (handler tkn args event w)) fromAddress (symbol tkn)
                  = (if amountSupplied w fromAddress (symbol tkn) \<ge> transferAmount
                     then amountSupplied w fromAddress (symbol tkn) - transferAmount else 0))"
proof -
  obtain r w' where run: "try_block tkn args event w = (r, w')"
    by (cases "try_block tkn args event w")
  with assms(2) have r: "r = Inr ()" by simp
  have h: "handler tkn args event w = (Inr (), w')"
    using handler_completed [OF assms(2)] run r by simp
  have liq: "userTransactions w' = userTransactions w
             \<and> amountBorrowed w' borrower (symbol tkn)
                 = amountBorrowed w borrower (symbol tkn) - repayAmount"
    if "args = LiquidateBorrowEvent liquidator borrower repayAmount mTokenCollateral seizeTokens"
      and "userMetrics w borrower = Some row" and "length (row (symbol tkn)) = 2"
  proof -
    from that(1) run r
    have t: "LiquidateBorrow_try tkn liquidator borrower repayAmount mTokenCollateral
               seizeTokens event w = (Inr (), w')"
      by simp
    show ?thesis
      using LiquidateBorrow_try_replay [OF t assms(1)] LiquidateBorrow_borrowed [OF t that(2,3)]
      by simp
  qed
  have credit: "userTransactions w' = userTransactions w
             \<and> amountSupplied w' toAddress (symbol tkn)
                 = amountSupplied w toAddress (symbol tkn) + transferAmount"
    if "args = TransferEvent fromAddress toAddress transferAmount"
      and "toAddress \<noteq> zeroAddress"
  proof -
    from that(1) run r
    have t: "Transfer_try tkn fromAddress toAddress transferAmount event w = (Inr (), w')"
      by simp
    have "amountSupplied w' toAddress (symbol tkn)
            = amountSupplied w toAddress (symbol tkn) + transferAmount"
    proof (cases "fromAddress = zeroAddress")
      case True
      then show ?thesis by (simp add: Transfer_mint_supplied [OF True t])
    next
      case False
      show ?thesis
      proof (cases "fromAddress = toAddress")
        case True
        with t have t': "Transfer_try tkn toAddress toAddress transferAmount event w
                           = (Inr (), w')"
          by simp
        show ?thesis by (simp add: Transfer_self_supplied [OF that(2) t'])
      next
        case ne: False
        show ?thesis
          using ne by (simp add: Transfer_ordinary_supplied [OF False that(2) ne t])
      qed
    qed
    then show ?thesis using Transfer_try_replay [OF t assms(1)] by simp
  qed
  have debit: "amountSupplied w' fromAddress (symbol tkn)
                  = (if amountSupplied w fromAddress (symbol tkn) \<ge> transferAmount
                     then amountSupplied w fromAddress (symbol tkn) - transferAmount else 0)"
    if "args = TransferEvent fromAddress toAddress transferAmount"
      and "fromAddress \<noteq> zeroAddress" and "fromAddress \<noteq> toAddress"
  proof -
    from that(1) run r
    have t: "Transfer_try tkn fromAddress toAddress transferAmount event w = (Inr (), w')"
      by simp
    show ?thesis
    proof (cases "toAddress = zeroAddress")
      case True
      then show ?thesis by (simp add: Transfer_burn_supplied [OF that(2) True t])
    next
      case False
      then show ?thesis by (simp add: Transfer_ordinary_supplied [OF that(2) False that(3) t])
    qed
  qed
  have hw: "snd (handler tkn args event w) = w'" by (simp add: h)
  have swallow: "fst (storeEvent indexedEvent w) = Inr ()"
    using storeEvent_frame [of indexedEvent w "fst (storeEvent indexedEvent w)"
                              "snd (storeEvent indexedEvent w)"]
    by simp
  show ?thesis unfolding hw using swallow liq credit debit by blast
qed

text \<open>
  Handling the same LiquidateBorrow of 10 twice takes the borrowed amount from 100 to 90
  and then to 80, with one row in the log; handling the same Transfer of 20 twice gives
  the receiver 40 and takes the sender from 50 to 10.
\<close>

theorem C10_replayed_delta_applied_again_witness:
  "amountBorrowed (worldWith userU [0, 100]) userU ''DAI'' = 100
   \<and> amountBorrowed
        (snd (handler DAI (LiquidateBorrowEvent liquidatorL userU 10 (address DAI) 3)
           sampleLocation (worldWith userU [0, 100]))) userU ''DAI'' = 90
   \<and> amountBorrowed
        (snd (handler DAI (LiquidateBorrowEvent liquidatorL userU 10 (address DAI) 3)
           sampleLocation
           (snd (handler DAI (LiquidateBorrowEvent liquidatorL userU 10 (address DAI) 3)
              sampleLocation (worldWith userU [0, 100]))))) userU ''DAI'' = 80
   \<and> length (userTransactions
        (snd (handler DAI (LiquidateBorrowEvent liquidatorL userU 10 (address DAI) 3)
           sampleLocation
           (snd (handler DAI (LiquidateBorrowEvent liquidatorL userU 10 (address DAI) 3)
              sampleLocation (worldWith userU [0, 100])))))) = 1
   \<and> amountSupplied
        (snd (handler DAI (TransferEvent userU userV 20) sampleLocation
           (worldWith userU [50, 0]))) userV ''DAI'' = 20
   \<and> amountSupplied
        (snd (handler DAI (TransferEvent userU userV 20) sampleLocation
           (snd (handler DAI (TransferEvent userU userV 20) sampleLocation
              (worldWith userU [50, 0]))))) userV ''DAI'' = 40
   \<and> amountSupplied
        (snd (handler DAI (TransferEvent userU userV 20) sampleLocation
           (snd (handler DAI (TransferEvent userU userV 20) sampleLocation
              (worldWith userU [50, 0]))))) userU ''DAI'' = 10"
proof -
  let ?liq = "LiquidateBorrowEvent liquidatorL userU 10 (address DAI) 3"
  let ?tr = "TransferEvent userU userV 20"
  let ?a1 = "snd (handler DAI ?liq sampleLocation (worldWith userU [0, 100]))"
  let ?b1 = "snd (handler DAI ?tr sampleLocation (worldWith userU [50, 0]))"
  have ida: "transaction_hash sampleLocation @ ''-'' @ toString (log_logIndex sampleLocation)
               \<in> set (map tx_id (userTransactions ?a1))"
    by (simp add: eval_defs)
  have idb: "transaction_hash sampleLocation @ ''-'' @ toString (log_logIndex sampleLocation)
               \<in> set (map tx_id (userTransactions ?b1))"
    by (simp add: eval_defs)
  have ta: "fst (try_block DAI ?liq sampleLocation ?a1) = Inr ()"
    by (simp add: eval_defs)
  have tb: "fst (try_block DAI ?tr sampleLocation ?b1) = Inr ()"
    by (simp add: eval_defs)
  have rowa: "userMetrics ?a1 userU = Some ((\<lambda>_. [])(''DAI'' := [0, 90]))"
    by (simp add: eval_defs)
  have la: "length (userTransactions ?a1) = 1"
    by (simp add: eval_defs)
  have a0: "amountBorrowed (worldWith userU [0, 100]) userU ''DAI'' = 100"
    by (simp add: eval_defs)
  have a1: "amountBorrowed ?a1 userU ''DAI'' = 90"
    by (simp add: eval_defs)
  have b1: "amountSupplied ?b1 userV ''DAI'' = 20" "amountSupplied ?b1 userU ''DAI'' = 30"
    by (simp_all add: eval_defs)
  have z: "userV \<noteq> zeroAddress" "userU \<noteq> zeroAddress" "userU \<noteq> userV"
    by (simp_all add: userU_def userV_def zeroAddress_def)
  from C10_replayed_delta_applied_again [OF ida ta,
         where liquidator = liquidatorL and borrower = userU and repayAmount = 10
           and mTokenCollateral = "address DAI" and seizeTokens = 3
           and row = "(\<lambda>_. [])(''DAI'' := [0, 90])"]
       C10_replayed_delta_applied_again [OF idb tb,
         where fromAddress = userU and toAddress = userV and transferAmount = 20]
       rowa la a0 a1 b1 z
  show ?thesis by (simp add: DAI_def)
qed

section \<open>Conservation of the supplied total\<close>

text \<open>
  C3 as stated fails on the code: with \<open>userU\<close> holding 5 and \<open>userV\<close> nothing, one ordinary
  Transfer of 1000 from \<open>userU\<close> to \<open>userV\<close> (both non-zero, both in the set) clamps the
  sender to 0 and credits the receiver in full, so the total over the set goes from 5 to
  1000.
\<close>

theorem C3_ordinary_transfers_not_conserved:
  "userU \<noteq> zeroAddress \<and> userV \<noteq> zeroAddress \<and> userU \<noteq> userV
   \<and> totalSupplied (worldWith userU [5, 0]) {userU, userV} ''DAI'' = 5
   \<and> totalSupplied
        (snd (process [(DAI, TransferEvent userU userV 1000, sampleLocation)]
           (worldWith userU [5, 0]))) {userU, userV} ''DAI'' = 1000"
  by (simp add: eval_defs)

text \<open>
  C3, amended: for a finite set \<open>S\<close> of non-zero addresses and a sequence of ordinary
  Transfer events, each between two different addresses of \<open>S\<close>, each of an amount no
  greater than the sender's \<open>amountSupplied\<close> at the moment it is handled, and each
  handled to completion, the sum of \<open>amountSupplied\<close> over \<open>S\<close> is the same after the
  sequence as before it, for every token.
\<close>

theorem C3_covered_transfers_conserve_supply:
  assumes "finite S" and "zeroAddress \<notin> S" and "ordinary_covered S w events"
  shows "totalSupplied (snd (process events w)) S tokenSymbol = totalSupplied w S tokenSymbol"
  using assms
proof (induction S w events rule: ordinary_covered.induct)
  case (1 S w)
  show ?case by (simp add: returnE_def)
next
  case (2 S w tkn fromAddress toAddress transferAmount event rest)
  let ?w1 = "snd (onTransfer tkn fromAddress toAddress transferAmount event w)"
  from "2.prems" have fin: "finite S" and zero: "zeroAddress \<notin> S"
    and mem: "fromAddress \<in> S" "toAddress \<in> S" "fromAddress \<noteq> toAddress"
    and cover: "transferAmount \<le> amountSupplied w fromAddress (symbol tkn)"
    and ok: "fst (Transfer_try tkn fromAddress toAddress transferAmount event w) = Inr ()"
    and rest: "ordinary_covered S ?w1 rest"
    by simp_all
  from mem zero have nz: "fromAddress \<noteq> zeroAddress" "toAddress \<noteq> zeroAddress" by auto
  have ok': "fst (try_block tkn (TransferEvent fromAddress toAddress transferAmount) event w)
               = Inr ()"
    using ok by simp
  have "Transfer_try tkn fromAddress toAddress transferAmount event w = (Inr (), ?w1)"
    using handler_completed [OF ok'] ok
    by (cases "Transfer_try tkn fromAddress toAddress transferAmount event w") simp
  from ordinary_step_total [OF fin mem nz cover this]
  have step: "totalSupplied ?w1 S tokenSymbol = totalSupplied w S tokenSymbol" .
  have "totalSupplied (snd (process rest ?w1)) S tokenSymbol = totalSupplied ?w1 S tokenSymbol"
    using "2.IH" fin zero rest by simp
  then show ?case unfolding process_Cons using step by simp
qed simp_all

text \<open>
  \<open>userU\<close> holds 50; 20 go to \<open>userV\<close> and 5 come back: \<open>userU\<close> ends with 35 and the
  total is 50 before and after.
\<close>

theorem C3_covered_transfers_conserve_supply_witness:
  "finite {userU, userV} \<and> zeroAddress \<notin> {userU, userV}
   \<and> ordinary_covered {userU, userV} (worldWith userU [50, 0])
        [(DAI, TransferEvent userU userV 20, sampleLocation),
         (DAI, TransferEvent userV userU 5, sampleLocation)]
   \<and> totalSupplied (worldWith userU [50, 0]) {userU, userV} ''DAI'' = 50
   \<and> amountSupplied
        (snd (process [(DAI, TransferEvent userU userV 20, sampleLocation),
                       (DAI, TransferEvent userV userU 5, sampleLocation)]
           (worldWith userU [50, 0]))) userU ''DAI'' = 35
   \<and> totalSupplied
        (snd (process [(DAI, TransferEvent userU userV 20, sampleLocation),
                       (DAI, TransferEvent userV userU 5, sampleLocation)]
           (worldWith userU [50, 0]))) {userU, userV} ''DAI'' = 50"
proof -
  let ?evs = "[(DAI, TransferEvent userU userV 20, sampleLocation),
               (DAI, TransferEvent userV userU 5, sampleLocation)]"
  have f: "finite {userU, userV}" by simp
  have z: "zeroAddress \<notin> {userU, userV}" by (simp add: userU_def userV_def zeroAddress_def)
  have c: "ordinary_covered {userU, userV} (worldWith userU [50, 0]) ?evs"
    by (simp add: eval_defs)
  have t: "totalSupplied (worldWith userU [50, 0]) {userU, userV} ''DAI'' = 50"
    by (simp add: eval_defs)
  have u: "amountSupplied (snd (process ?evs (worldWith userU [50, 0]))) userU ''DAI'' = 35"
    by (simp add: eval_defs)
  from C3_covered_transfers_conserve_supply [OF f z c, of "''DAI''"] f z c t u
  show ?thesis by simp
qed

section \<open>Exceptions at the event boundary\<close>

text \<open>
  C8, evaluated on the code: a Transfer on the DAI market whose \<open>db.find\<close> fails. The
  handler catches the error, but the record it prints and appends to the error log is
  \<open>Error processing Transfer event from MToken\<close>: it names neither of the two users nor
  the token symbol. The catch blocks of the other five handlers record both (lemma
  \<open>errorContext_mentions\<close>); for every kind of event the handler and the run over a
  sequence return normally (lemmas \<open>handler_total\<close>, \<open>process_total\<close>).
\<close>

theorem C8_transfer_context_lacks_user_and_token:
  "fst (try_block DAI (TransferEvent userU userV 7) sampleLocation
          (emptyWorld\<lparr>io_faults := [False, False, False, True]\<rparr>)) = Inl StorageError
   \<and> console (snd (handler DAI (TransferEvent userU userV 7) sampleLocation
          (emptyWorld\<lparr>io_faults := [False, False, False, True]\<rparr>)))
       = [EVENT_ERROR ''Error processing Transfer event from MToken'' StorageError]
   \<and> errors_log (snd (handler DAI (TransferEvent userU userV 7) sampleLocation
          (emptyWorld\<lparr>io_faults := [False, False, False, True]\<rparr>)))
       = [(''Error processing Transfer event from MToken'', StorageError)]
   \<and> \<not> mentions ''Error processing Transfer event from MToken'' userU
   \<and> \<not> mentions ''Error processing Transfer event from MToken'' userV
   \<and> \<not> mentions ''Error processing Transfer event from MToken'' (symbol DAI)"
  by (simp add: eval_defs Transfer_errorContext_def contractName_def TOKENS_def)

end
